theory Spec2Isabelle
  imports Main
begin

section \<open>Strings and paths\<close>

text \<open>
  Go strings are byte sequences; they are modelled as \<open>string\<close>.  The functions of
  this section are the ones the program calls from the packages \<open>strings\<close> and
  \<open>path/filepath\<close> (with \<open>/\<close> as the separator), written after their
  documented behaviour.
\<close>

definition HasPrefix :: "string \<Rightarrow> string \<Rightarrow> bool" where
  "HasPrefix s p = (take (length p) s = p)"

definition HasSuffix :: "string \<Rightarrow> string \<Rightarrow> bool" where
  "HasSuffix s suf = (length suf \<le> length s \<and> drop (length s - length suf) s = suf)"

fun Contains :: "string \<Rightarrow> string \<Rightarrow> bool" where
  "Contains [] sub = (sub = [])"
| "Contains (c # cs) sub = (HasPrefix (c # cs) sub \<or> Contains cs sub)"

definition TrimSuffix :: "string \<Rightarrow> string \<Rightarrow> string" where
  "TrimSuffix s suf = (if HasSuffix s suf then take (length s - length suf) s else s)"

text \<open>\<open>strings.Split s sep\<close> for a separator of one byte.\<close>

fun splitOn :: "char \<Rightarrow> string \<Rightarrow> string list" where
  "splitOn sep [] = [[]]"
| "splitOn sep (c # cs) =
     (if c = sep then [] # splitOn sep cs
      else (case splitOn sep cs of [] \<Rightarrow> [[c]] | w # ws \<Rightarrow> (c # w) # ws))"

fun joinWith :: "string \<Rightarrow> string list \<Rightarrow> string" where
  "joinWith sep [] = []"
| "joinWith sep [x] = x"
| "joinWith sep (x # y # ys) = x @ sep @ joinWith sep (y # ys)"

text \<open>
  \<open>filepath.Clean\<close>: empty and \<open>.\<close> elements are dropped, an inner \<open>..\<close> removes
  the element before it, a \<open>..\<close> at the start of a rooted path is dropped, and the
  empty result is \<open>.\<close>.
\<close>

definition cleanStep :: "bool \<Rightarrow> string list \<Rightarrow> string \<Rightarrow> string list" where
  "cleanStep rooted stack el =
     (if el = [] \<or> el = ''.'' then stack
      else if el = ''..'' then
        (if stack \<noteq> [] \<and> last stack \<noteq> ''..'' then butlast stack
         else if rooted then stack
         else stack @ [el])
      else stack @ [el])"

definition Clean :: "string \<Rightarrow> string" where
  "Clean path =
     (let rooted = HasPrefix path ''/'';
          stack = foldl (cleanStep rooted) [] (splitOn CHR ''/'' path);
          out = (if rooted then ''/'' else []) @ joinWith ''/'' stack
      in if out = [] then ''.'' else out)"

text \<open>\<open>filepath.Join\<close>: leading empty elements are skipped, the rest is joined and cleaned.\<close>

definition Join :: "string list \<Rightarrow> string" where
  "Join elem =
     (case dropWhile (\<lambda>e. e = []) elem of
        [] \<Rightarrow> []
      | es \<Rightarrow> Clean (joinWith ''/'' es))"

text \<open>\<open>filepath.Split\<close> cuts after the last separator.\<close>

definition Split :: "string \<Rightarrow> string \<times> string" where
  "Split path =
     (let file = rev (takeWhile (\<lambda>c. c \<noteq> CHR ''/'') (rev path))
      in (take (length path - length file) path, file))"

definition Base :: "string \<Rightarrow> string" where
  "Base path =
     (if path = [] then ''.''
      else
        let p = rev (dropWhile (\<lambda>c. c = CHR ''/'') (rev path));
            el = rev (takeWhile (\<lambda>c. c \<noteq> CHR ''/'') (rev p))
        in if el = [] then ''/'' else el)"

section \<open>Errors and outcomes\<close>

text \<open>
  A Go \<open>error\<close> value is the text its method \<open>Error\<close> returns; an
  \<open>*sftp.StatusError\<close> is its code and that text, which the package \<open>sftp\<close> prints as
  \<open>sftp: "message" (SSH_FX_NAME)\<close>.  A function that returns \<open>error\<close> ends in one of
  three ways: it returns \<open>nil\<close>, it returns an error, or it panics.
\<close>

datatype error = Error string | StatusError nat string

fun errorText :: "error \<Rightarrow> string" where
  "errorText (Error m) = m"
| "errorText (StatusError code m) = m"

datatype status = OK | Err error | Panic string

section \<open>The local file tree and the walk of sshcmd\<close>

text \<open>
  A local file holds its content, or the error \<open>os.Open\<close> gives for it; a directory
  holds its entries in the order \<open>os.ReadDir\<close> returns them.
\<close>

datatype entry = File string "error + string" | Dir string "entry list"

fun entryName :: "entry \<Rightarrow> string" where
  "entryName (File n c) = n"
| "entryName (Dir n es) = n"

fun IsDir :: "entry \<Rightarrow> bool" where
  "IsDir (File n c) = False"
| "IsDir (Dir n es) = True"

text \<open>
  \<open>filepath.WalkDir\<close> calls its function on the root under the path it was given and
  then, for a directory, on each entry under the joined path, depth first.
\<close>

fun walkDir :: "string \<Rightarrow> entry \<Rightarrow> (string \<times> entry) list" where
  "walkDir path (File n c) = [(path, File n c)]"
| "walkDir path (Dir n es) =
     (path, Dir n es) # concat (map (\<lambda>e. walkDir (Join [path, entryName e]) e) es)"

text \<open>
  The body of the closure in \<open>Client.WalkDir\<close>, up to the call of \<open>fn\<close>: from the
  directory stack and the visited path it computes the remote path and the new stack.
\<close>

definition visit :: "string \<Rightarrow> string list \<Rightarrow> string \<Rightarrow> bool \<Rightarrow> string \<times> string list" where
  "visit dstDir dirs path isDir =
     (let curDir = Join dirs;
          d = fst (Split path);
          d = (if d \<noteq> [] then butlast d else d);
          dirs = (if \<not> HasSuffix d curDir then (if dirs \<noteq> [] then butlast dirs else dirs) else dirs);
          curDir = (if \<not> HasSuffix d curDir then Join dirs else curDir);
          dstPath = Join [dstDir, curDir, Base path];
          dirs = (if isDir then dirs @ [Base path] else dirs)
      in (dstPath, dirs))"

fun walkLoop ::
  "(string \<Rightarrow> string \<Rightarrow> entry \<Rightarrow> 's \<Rightarrow> status \<times> 's) \<Rightarrow> string \<Rightarrow>
   (string \<times> entry) list \<Rightarrow> string list \<Rightarrow> 's \<Rightarrow> status \<times> 's" where
  "walkLoop fn dstDir [] dirs s = (OK, s)"
| "walkLoop fn dstDir ((path, info) # rest) dirs s =
     (case visit dstDir dirs path (IsDir info) of
        (dstPath, dirs') \<Rightarrow>
          (case fn path dstPath info s of
             (OK, s') \<Rightarrow> walkLoop fn dstDir rest dirs' s'
           | (r, s') \<Rightarrow> (r, s')))"

text \<open>
  \<open>Client.WalkDir\<close>.  When the root cannot be read, \<open>filepath.WalkDir\<close> calls the
  closure with no entry, and the closure's \<open>info.IsDir()\<close> panics.
\<close>

definition WalkDir ::
  "(string \<Rightarrow> entry option) \<Rightarrow> string \<Rightarrow> string \<Rightarrow>
   (string \<Rightarrow> string \<Rightarrow> entry \<Rightarrow> 's \<Rightarrow> status \<times> 's) \<Rightarrow> 's \<Rightarrow> status \<times> 's" where
  "WalkDir lstat srcPath dstDir fn s =
     (case lstat srcPath of
        None \<Rightarrow> (Panic ''nil DirEntry'', s)
      | Some root \<Rightarrow> walkLoop fn dstDir (walkDir srcPath root) [] s)"

section \<open>Configuration, messages and services\<close>

record Conf =
  User :: string
  Host :: string
  Port :: string
  PrivateKeyPath :: string
  GoExecPath :: string
  GoBinDirectory :: string
  GoInstall :: string
  GoPrivate :: string
  NetrcMachine :: string
  NetrcLogin :: string
  NetrcPassword :: string
  SystemdPath :: string
  SystemdServicesDirectory :: string
  SystemdLingerDirectory :: string
  ExecStart :: string
  WorkingDirectory :: string
  Environment :: string
  LogPath :: string
  RunAfterService :: string
  StartLimitBurst :: int
  StartLimitIntervalSec :: int
  RestartSec :: int
  CopyFiles :: "string list"
  Ignore :: bool

datatype MessageStatus = MessageNormal | MessageSuccess | MessageError | MessageWarning

text \<open>The struct \<open>message\<close>; its field \<open>text\<close> is \<open>msgText\<close> here.\<close>

record message =
  serviceName :: string
  msgText :: string
  status :: MessageStatus

text \<open>
  A \<open>Service\<close>.  Its \<open>client\<close> is part of the state below; of its \<open>runner\<close> the
  functions read \<open>confFilePath\<close>, here the field \<open>runnerConfFilePath\<close>, and send
  messages on the channel, which is the state's \<open>outputCh\<close>.
\<close>

record Service =
  Name :: string
  Conf :: Conf
  remoteHomeDir :: string
  runnerConfFilePath :: string

section \<open>The remote host and the client state\<close>

text \<open>
  What a command does on the remote host is outside the program.  A platform gives,
  for a state \<open>'w\<close> of the world, the outcome of each operation the client asks of
  it.  \<open>sessionRun\<close> stands for \<open>NewSession\<close> followed by \<open>session.Run\<close>: either no
  session could be made, or the command ran and left its standard output, its
  standard error and the error of \<open>Run\<close>.  The next five fields are the local
  machine: the file tree, the name \<open>user.Current\<close> gives (if it gives one), the
  variable \<open>HOME\<close>, the error of reading a key file, and the error of parsing the
  key and dialling the host with it.  The last field is the package \<open>html/template\<close>
  on a template text that lies outside the texts whose parsing is written out below:
  for the text and the configuration, the error of \<open>Parse\<close>, or what \<open>Execute\<close> has
  written to the buffer when it returns.
\<close>

datatype ran = NoSession error | Ran string string "error option"

record 'w platform =
  sessionRun :: "string \<Rightarrow> 'w \<Rightarrow> ran \<times> 'w"
  sftpNewClient :: "'w \<Rightarrow> error option \<times> 'w"
  sftpMkdirAll :: "string \<Rightarrow> 'w \<Rightarrow> error option \<times> 'w"
  sftpCreate :: "string \<Rightarrow> 'w \<Rightarrow> error option \<times> 'w"
  sftpReadFrom :: "string \<Rightarrow> string \<Rightarrow> 'w \<Rightarrow> error option \<times> 'w"
  sftpRemove :: "string \<Rightarrow> 'w \<Rightarrow> error option \<times> 'w"
  sftpRemoveDirectory :: "string \<Rightarrow> 'w \<Rightarrow> error option \<times> 'w"
  lstat :: "string \<Rightarrow> entry option"
  currentUser :: "string option"
  homeEnv :: string
  readKey :: "string \<Rightarrow> error option"
  dial :: "string \<Rightarrow> string \<Rightarrow> string \<Rightarrow> string \<Rightarrow> 'w \<Rightarrow> error option \<times> 'w"
  executeTemplate :: "string \<Rightarrow> Conf \<Rightarrow> error + string"

text \<open>The operations asked of the host, in the order they were asked.\<close>

datatype call =
    Dial string string string
  | Exec string
  | NewSftp
  | MkdirAll string
  | Create string
  | ReadFrom string string
  | Remove string
  | RemoveDirectory string

text \<open>
  The state a service's functions work on: the world, whether the client's
  \<open>SshClient\<close> and \<open>SftClient\<close> are set, the calls made so far and the messages sent
  so far on the runner's channel.
\<close>

record 'w state =
  world :: 'w
  SshClient :: bool
  SftClient :: bool
  calls :: "call list"
  outputCh :: "message list"

definition SendMessage :: "string \<Rightarrow> string \<Rightarrow> MessageStatus \<Rightarrow> 'w state \<Rightarrow> 'w state" where
  "SendMessage sn t st s =
     s\<lparr>outputCh := outputCh s @ [\<lparr>serviceName = sn, msgText = t, status = st\<rparr>]\<rparr>"

text \<open>An sftp operation on the connected client: the call is logged and the world moves on.\<close>

definition sftpCall ::
  "call \<Rightarrow> ('w \<Rightarrow> error option \<times> 'w) \<Rightarrow> 'w state \<Rightarrow> error option \<times> 'w state" where
  "sftpCall c f s =
     (case f (world s) of (r, w) \<Rightarrow> (r, s\<lparr>world := w, calls := calls s @ [c]\<rparr>))"

text \<open>\<open>Client.Exec\<close>.\<close>

definition Client_Exec ::
  "'w platform \<Rightarrow> string \<Rightarrow> 'w state \<Rightarrow> (string \<times> error option) \<times> 'w state" where
  "Client_Exec P cmd s =
     (if \<not> SshClient s then (([], Some (Error ''client is not connected'')), s)
      else
        (case sessionRun P cmd (world s) of
           (NoSession e, w) \<Rightarrow>
             (([], Some e), s\<lparr>world := w, calls := calls s @ [Exec cmd]\<rparr>)
         | (Ran out errout (Some e), w) \<Rightarrow>
             ((errout, Some e), s\<lparr>world := w, calls := calls s @ [Exec cmd]\<rparr>)
         | (Ran out errout None, w) \<Rightarrow>
             ((out, None), s\<lparr>world := w, calls := calls s @ [Exec cmd]\<rparr>)))"

text \<open>
  \<open>Client.ConnectSftpClient\<close>.  \<open>sftp.NewClient\<close> on a client that was never
  connected dereferences a nil pointer.
\<close>

definition ConnectSftpClient :: "'w platform \<Rightarrow> 'w state \<Rightarrow> status \<times> 'w state" where
  "ConnectSftpClient P s =
     (if SftClient s then (OK, s)
      else if \<not> SshClient s then (Panic ''nil ssh client'', s)
      else
        (case sftpCall NewSftp (sftpNewClient P) s of
           (Some e, s') \<Rightarrow> (Err e, s')
         | (None, s') \<Rightarrow> (OK, s'\<lparr>SftClient := True\<rparr>)))"

text \<open>\<open>Service.Exec\<close> and \<open>Service.PrintExec\<close>.\<close>

definition Service_Exec ::
  "'w platform \<Rightarrow> string \<Rightarrow> 'w state \<Rightarrow> (string \<times> error option) \<times> 'w state" where
  "Service_Exec P cmd s =
     (case Client_Exec P cmd s of
        ((out, err), s') \<Rightarrow> ((TrimSuffix out ''\<newline>'', err), s'))"

definition PrintExec ::
  "'w platform \<Rightarrow> Service \<Rightarrow> string \<Rightarrow> string \<Rightarrow> 'w state \<Rightarrow> status \<times> 'w state" where
  "PrintExec P service cmd errorMessage s =
     (case Service_Exec P cmd (SendMessage (Name service) cmd MessageNormal s) of
        ((out, Some err), s') \<Rightarrow>
          (Err err,
           SendMessage (Name service)
             (if errorMessage = [] then out else errorMessage @ '': '' @ out)
             MessageError s')
      | ((out, None), s') \<Rightarrow> (OK, SendMessage (Name service) out MessageSuccess s'))"

section \<open>Templates\<close>

text \<open>
  The templates of the program are constants of the package \<open>html/template\<close>; each is
  given here as the list of nodes its text parses to.  A field of the configuration
  is printed with the escaper of HTML text; a conditional block is printed when its
  field is not empty (a string) or not zero (an integer).
\<close>

fun htmlEscapeChar :: "char \<Rightarrow> string" where
  "htmlEscapeChar c =
     (if c = CHR 0x00 then [CHR 0xEF, CHR 0xBF, CHR 0xBD]
      else if c = CHR 0x22 then ''&#34;''
      else if c = CHR ''&'' then ''&amp;''
      else if c = CHR 0x27 then ''&#39;''
      else if c = CHR ''+'' then ''&#43;''
      else if c = CHR ''<'' then ''&lt;''
      else if c = CHR ''>'' then ''&gt;''
      else [c])"

definition htmlEscape :: "string \<Rightarrow> string" where
  "htmlEscape s = concat (map htmlEscapeChar s)"

fun digits :: "nat \<Rightarrow> string" where
  "digits n =
     (if n < 10 then [char_of (48 + n)]
      else digits (n div 10) @ [char_of (48 + n mod 10)])"

definition Itoa :: "int \<Rightarrow> string" where
  "Itoa i = (if i < 0 then ''-'' @ digits (nat (- i)) else digits (nat i))"

datatype node =
    Text string
  | StringField "Conf \<Rightarrow> string"
  | IntField "Conf \<Rightarrow> int"
  | IfString "Conf \<Rightarrow> string" "node list"
  | IfInt "Conf \<Rightarrow> int" "node list"

fun Execute :: "node \<Rightarrow> Conf \<Rightarrow> string" where
  "Execute (Text t) c = t"
| "Execute (StringField f) c = htmlEscape (f c)"
| "Execute (IntField f) c = htmlEscape (Itoa (f c))"
| "Execute (IfString f body) c = (if f c \<noteq> [] then concat (map (\<lambda>n. Execute n c) body) else [])"
| "Execute (IfInt f body) c = (if f c \<noteq> 0 then concat (map (\<lambda>n. Execute n c) body) else [])"

text \<open>\<open>Service.ParseCommand\<close>, on the parsed template.\<close>

definition ParseCommand :: "node list \<Rightarrow> Service \<Rightarrow> string" where
  "ParseCommand cmd service = concat (map (\<lambda>n. Execute n (Conf service)) cmd)"

section \<open>The unit file\<close>

text \<open>
  The constant \<open>serviceTemplate\<close> is the format of a template text; \<open>fmt.Sprintf\<close> puts
  the service name in the place of its only verb.
\<close>

definition serviceTemplateText :: "string \<Rightarrow> string" where
  "serviceTemplateText name =
     ''[Unit]\<newline>Description='' @ name @ ''\<newline>''
     @ ''{{- if .RunAfterService}}\<newline>After={{.RunAfterService}}\<newline>{{- end}}\<newline>''
     @ ''{{- if .StartLimitBurst}}\<newline>StartLimitBurst={{.StartLimitBurst}}\<newline>{{- end}}\<newline>''
     @ ''{{- if .StartLimitIntervalSec}}\<newline>StartLimitIntervalSec={{.StartLimitIntervalSec}}\<newline>{{- end}}\<newline>''
     @ ''\<newline>[Service]\<newline>Type=simple\<newline>Restart=always\<newline>''
     @ ''{{- if .RestartSec}}\<newline>RestartSec={{.RestartSec}}\<newline>{{- end}}\<newline>''
     @ ''{{- if .Environment}}\<newline>Environment={{.Environment}}\<newline>{{- end}}\<newline>''
     @ ''{{- if .LogPath}}\<newline>StandardOutput=append:{{.LogPath}}\<newline>{{- end}}\<newline>''
     @ ''{{- if .LogPath}}\<newline>StandardError=append:{{.LogPath}}\<newline>{{- end}}\<newline>''
     @ ''WorkingDirectory={{.WorkingDirectory}}\<newline>ExecStart={{.ExecStart}}\<newline>''
     @ ''\<newline>[Install]\<newline>WantedBy=default.target''"

text \<open>
  A service name is plain when it holds neither the opening of a template action,
  \<open>{{\<close>, nor the opening of markup, \<open><\<close>.  The template text of a plain name has the
  actions of the constant and no other, and the escaper reads all of its text as HTML
  text.  \<open>serviceTemplate\<close> gives the nodes that text parses to: a marker \<open>{{-\<close> removes
  the white space that ends the text before it, so the line break before each
  conditional block belongs to the block, and the name loses the white space it ends
  with.
\<close>

definition plainName :: "string \<Rightarrow> bool" where
  "plainName name = (\<not> Contains name ''{{'' \<and> CHR ''<'' \<notin> set name)"

definition trimRightSpace :: "string \<Rightarrow> string" where
  "trimRightSpace t =
     rev (dropWhile (\<lambda>c. c = CHR '' '' \<or> c = CHR 0x09 \<or> c = CHR 0x0D \<or> c = CHR ''\<newline>'') (rev t))"

definition serviceTemplate :: "string \<Rightarrow> node list" where
  "serviceTemplate name =
     [Text (trimRightSpace (''[Unit]\<newline>Description='' @ name @ ''\<newline>'')),
      IfString RunAfterService [Text ''\<newline>After='', StringField RunAfterService],
      IfInt StartLimitBurst [Text ''\<newline>StartLimitBurst='', IntField StartLimitBurst],
      IfInt StartLimitIntervalSec
        [Text ''\<newline>StartLimitIntervalSec='', IntField StartLimitIntervalSec],
      Text ''\<newline>\<newline>[Service]\<newline>Type=simple\<newline>Restart=always'',
      IfInt RestartSec [Text ''\<newline>RestartSec='', IntField RestartSec],
      IfString Environment [Text ''\<newline>Environment='', StringField Environment],
      IfString LogPath [Text ''\<newline>StandardOutput=append:'', StringField LogPath],
      IfString LogPath [Text ''\<newline>StandardError=append:'', StringField LogPath],
      Text ''\<newline>WorkingDirectory='', StringField WorkingDirectory,
      Text ''\<newline>ExecStart='', StringField ExecStart,
      Text ''\<newline>\<newline>[Install]\<newline>WantedBy=default.target'']"

text \<open>
  \<open>Service.GenerateServiceFile\<close>: the error it panics with when \<open>Parse\<close> fails, or the
  text written to the buffer; the error of \<open>Execute\<close> is dropped.  For a plain name
  \<open>Parse\<close> succeeds and \<open>Execute\<close> prints the nodes; for any other name the outcome is
  the platform's.
\<close>

definition GenerateServiceFile :: "'w platform \<Rightarrow> Service \<Rightarrow> error + string" where
  "GenerateServiceFile P service =
     (if plainName (Name service)
      then Inr (concat (map (\<lambda>n. Execute n (Conf service)) (serviceTemplate (Name service))))
      else executeTemplate P (serviceTemplateText (Name service)) (Conf service))"

section \<open>Copying and deleting files\<close>

definition sftpStep :: "error option \<times> 'w state \<Rightarrow> status \<times> 'w state" where
  "sftpStep r = (case r of (None, s) \<Rightarrow> (OK, s) | (Some e, s) \<Rightarrow> (Err e, s))"

text \<open>The function \<open>Service.CopyFile\<close> hands to the walk.\<close>

fun copyFn :: "'w platform \<Rightarrow> string \<Rightarrow> string \<Rightarrow> entry \<Rightarrow> 'w state \<Rightarrow> status \<times> 'w state" where
  "copyFn P localPath remotePath (Dir n es) s =
     sftpStep (sftpCall (MkdirAll remotePath) (sftpMkdirAll P remotePath) s)"
| "copyFn P localPath remotePath (File n (Inl e)) s = (Err e, s)"
| "copyFn P localPath remotePath (File n (Inr bytes)) s =
     (case sftpCall (Create remotePath) (sftpCreate P remotePath) s of
        (Some e, s') \<Rightarrow> (Err e, s')
      | (None, s') \<Rightarrow>
          sftpStep (sftpCall (ReadFrom remotePath bytes) (sftpReadFrom P remotePath bytes) s'))"

definition CopyFile ::
  "'w platform \<Rightarrow> Service \<Rightarrow> string \<Rightarrow> string \<Rightarrow> 'w state \<Rightarrow> status \<times> 'w state" where
  "CopyFile P service path workingDirectory s =
     (case ConnectSftpClient P s of
        (OK, s') \<Rightarrow> WalkDir (lstat P) path workingDirectory (copyFn P) s'
      | (r, s') \<Rightarrow> (r, s'))"

text \<open>
  The function \<open>Service.DeleteFile\<close> hands to the walk works on the slice
  \<open>directories\<close> as well; the loop after the walk removes its elements from the last
  to the first.
\<close>

fun deleteFn ::
  "'w platform \<Rightarrow> string \<Rightarrow> string \<Rightarrow> entry \<Rightarrow> string list \<times> 'w state \<Rightarrow>
   status \<times> string list \<times> 'w state" where
  "deleteFn P localPath remotePath info (directories, s) =
     (if IsDir info then (OK, (directories @ [remotePath], s))
      else (OK, (directories, snd (sftpCall (Remove remotePath) (sftpRemove P remotePath) s))))"

fun removeDirectories :: "'w platform \<Rightarrow> string list \<Rightarrow> 'w state \<Rightarrow> 'w state" where
  "removeDirectories P [] s = s"
| "removeDirectories P (d # ds) s =
     removeDirectories P ds (snd (sftpCall (RemoveDirectory d) (sftpRemoveDirectory P d) s))"

definition DeleteFile ::
  "'w platform \<Rightarrow> Service \<Rightarrow> string \<Rightarrow> string \<Rightarrow> 'w state \<Rightarrow> status \<times> 'w state" where
  "DeleteFile P service path workingDirectory s =
     (case ConnectSftpClient P s of
        (OK, s') \<Rightarrow>
          (case WalkDir (lstat P) path workingDirectory (deleteFn P) ([], s') of
             (Panic m, (directories, s'')) \<Rightarrow> (Panic m, s'')
           | (err, (directories, s'')) \<Rightarrow> (err, removeDirectories P (rev directories) s''))
      | (r, s') \<Rightarrow> (r, s'))"

definition unitFileName :: "Service \<Rightarrow> string" where
  "unitFileName service =
     Join [SystemdServicesDirectory (Conf service), Name service @ ''.service'']"

definition CopyUnitServiceFile :: "'w platform \<Rightarrow> Service \<Rightarrow> 'w state \<Rightarrow> status \<times> 'w state" where
  "CopyUnitServiceFile P service s =
     (case ConnectSftpClient P s of
        (OK, s') \<Rightarrow>
          (case GenerateServiceFile P service of
             Inl e \<Rightarrow> (Panic (errorText e), s')
           | Inr buf \<Rightarrow>
               (case sftpCall (Create (unitFileName service)) (sftpCreate P (unitFileName service)) s' of
                  (Some e, s'') \<Rightarrow> (Err e, s'')
                | (None, s'') \<Rightarrow>
                    sftpStep (sftpCall (ReadFrom (unitFileName service) buf)
                      (sftpReadFrom P (unitFileName service) buf) s'')))
      | (r, s') \<Rightarrow> (r, s'))"

definition DeleteDirIfEmpty :: "'w platform \<Rightarrow> Service \<Rightarrow> string \<Rightarrow> 'w state \<Rightarrow> status \<times> 'w state" where
  "DeleteDirIfEmpty P service dirPath s =
     (case ConnectSftpClient P s of
        (OK, s') \<Rightarrow> sftpStep (sftpCall (Remove dirPath) (sftpRemove P dirPath) s')
      | (r, s') \<Rightarrow> (r, s'))"

section \<open>The steps of a service\<close>

definition quoted :: "string \<Rightarrow> string" where
  "quoted t = [CHR 0x27] @ t @ [CHR 0x27]"

definition CheckGo :: "'w platform \<Rightarrow> Service \<Rightarrow> 'w state \<Rightarrow> status \<times> 'w state" where
  "CheckGo P s st =
     PrintExec P s (ParseCommand [StringField GoExecPath, Text '' version''] s)
       (''couldn't find the `go` executable. Please install `go` or set the executable path in `''
        @ runnerConfFilePath s @ ''` file using the `go_exec_path` variable'') st"

definition CheckSystemd :: "'w platform \<Rightarrow> Service \<Rightarrow> 'w state \<Rightarrow> status \<times> 'w state" where
  "CheckSystemd P s st =
     PrintExec P s (ParseCommand [StringField SystemdPath, Text '' --version''] s)
       (''couldn't find the `systemd` executable. Please install `systemd` or set the executable path in `''
        @ runnerConfFilePath s @ ''` file using the `systemd_path` variable'') st"

definition notLingering :: "Service \<Rightarrow> error" where
  "notLingering s =
     Error (''user `'' @ User (Conf s)
       @ ''` is not in the linger list. You can add it with the command `sudo loginctl enable-linger ''
       @ User (Conf s) @ ''`'')"

definition CheckLingering :: "'w platform \<Rightarrow> Service \<Rightarrow> 'w state \<Rightarrow> status \<times> 'w state" where
  "CheckLingering P s st =
     (let cmd = ParseCommand [Text ''ls '', StringField SystemdLingerDirectory] s in
      case Service_Exec P cmd (SendMessage (Name s) cmd MessageNormal st) of
        ((out, Some err), st') \<Rightarrow> (Err err, SendMessage (Name s) (errorText err) MessageError st')
      | ((out, None), st') \<Rightarrow>
          (if User (Conf s) \<notin> set (splitOn CHR ''\<newline>'' out)
           then (Err (notLingering s),
                 SendMessage (Name s) (errorText (notLingering s)) MessageError st')
           else (OK, SendMessage (Name s) out MessageSuccess st')))"

definition CheckWorkingDir ::
  "'w platform \<Rightarrow> Service \<Rightarrow> bool \<Rightarrow> 'w state \<Rightarrow> status \<times> 'w state" where
  "CheckWorkingDir P s createWorkingDirectory st =
     (let cmd = ParseCommand [Text ''test -e '', StringField WorkingDirectory] s in
      case Service_Exec P cmd (SendMessage (Name s) cmd MessageNormal st) of
        ((out, None), st') \<Rightarrow> (OK, SendMessage (Name s) [] MessageSuccess st')
      | ((out, Some err), st') \<Rightarrow>
          (if \<not> createWorkingDirectory
           then (Err err,
                 SendMessage (Name s)
                   (''Service working directory '' @ quoted (WorkingDirectory (Conf s))
                    @ '' does not exist on the remote host'') MessageError st')
           else
             (let cmd = ParseCommand [Text ''mkdir -p '', StringField WorkingDirectory] s in
              case Service_Exec P cmd (SendMessage (Name s) cmd MessageNormal st') of
                ((out, Some err), st'') \<Rightarrow>
                  (Err err, SendMessage (Name s) (errorText err) MessageError st'')
              | ((out, None), st'') \<Rightarrow> (OK, SendMessage (Name s) out MessageSuccess st''))))"

definition netrcAuth :: "Service \<Rightarrow> string" where
  "netrcAuth s =
     ''machine '' @ NetrcMachine (Conf s) @ '' login '' @ NetrcLogin (Conf s)
     @ '' password '' @ NetrcPassword (Conf s)"

definition AuthPrivateRepo :: "'w platform \<Rightarrow> Service \<Rightarrow> 'w state \<Rightarrow> status \<times> 'w state" where
  "AuthPrivateRepo P s st =
     (if GoPrivate (Conf s) \<noteq> [] then
        (case Service_Exec P ''cat ~/.netrc''
                (SendMessage (Name s) ''GO_PRIVATE found: edit .netrc file'' MessageNormal st) of
           ((out, err), st') \<Rightarrow>
             (if \<not> Contains out (netrcAuth s) then
                (let cmd =
                   (if err \<noteq> None then ''echo '' @ quoted (netrcAuth s) @ '' > ~/.netrc''
                    else ''echo '' @ quoted (netrcAuth s @ ''\<newline>'' @ out) @ '' > ~/.netrc'')
                 in case Service_Exec P cmd st' of
                      ((out', Some err'), st'') \<Rightarrow>
                        (Err err', SendMessage (Name s) (errorText err') MessageError st'')
                    | ((out', None), st'') \<Rightarrow> (OK, SendMessage (Name s) [] MessageSuccess st''))
              else (OK, SendMessage (Name s) [] MessageSuccess st')))
      else (OK, st))"

definition InstallExecutable :: "'w platform \<Rightarrow> Service \<Rightarrow> 'w state \<Rightarrow> status \<times> 'w state" where
  "InstallExecutable P s st =
     (let cmd =
        (if GoPrivate (Conf s) \<noteq> []
         then ParseCommand [Text ''GOPRIVATE='', StringField GoPrivate, Text '' '',
                StringField GoExecPath, Text '' install '', StringField GoInstall] s
         else ParseCommand [StringField GoExecPath, Text '' install '', StringField GoInstall] s);
          errorMessage = ''cannot install the package `'' @ GoInstall (Conf s) @ ''`''
      in case Service_Exec P cmd (SendMessage (Name s) cmd MessageNormal st) of
           ((out, Some err), st') \<Rightarrow>
             (Err err,
              SendMessage (Name s) ((errorMessage @ '': '' @ out) @ '': '' @ out) MessageError st')
         | ((out, None), st') \<Rightarrow>
             (case Service_Exec P (ParseCommand [Text ''file '', StringField ExecStart] s) st' of
                ((out', Some err'), st'') \<Rightarrow>
                  (Err err',
                   SendMessage (Name s)
                     (''couldn't find the `'' @ ExecStart (Conf s) @ ''` executable'' @ '': '' @ out')
                     MessageError st'')
              | ((out', None), st'') \<Rightarrow> (OK, SendMessage (Name s) ''Installed'' MessageSuccess st'')))"

definition DeleteExecutable :: "'w platform \<Rightarrow> Service \<Rightarrow> 'w state \<Rightarrow> status \<times> 'w state" where
  "DeleteExecutable P s st =
     PrintExec P s (ParseCommand [Text ''rm '', StringField ExecStart] s)
       (''cannot delete service binary file `'' @ ExecStart (Conf s) @ ''`'') st"

definition CreateServiceFile :: "'w platform \<Rightarrow> Service \<Rightarrow> 'w state \<Rightarrow> status \<times> 'w state" where
  "CreateServiceFile P s st =
     (case CopyUnitServiceFile P s
             (SendMessage (Name s)
                (''Copy service file in `'' @ SystemdServicesDirectory (Conf s) @ ''`'')
                MessageNormal st) of
        (Err err, st') \<Rightarrow> (Err err, SendMessage (Name s) (errorText err) MessageError st')
      | (OK, st') \<Rightarrow> (OK, SendMessage (Name s) ''Copied'' MessageSuccess st')
      | (Panic m, st') \<Rightarrow> (Panic m, st'))"

text \<open>The loop of \<open>Service.CopyFiles\<close> over the configured paths.\<close>

fun copyLoop :: "'w platform \<Rightarrow> Service \<Rightarrow> string list \<Rightarrow> 'w state \<Rightarrow> status \<times> 'w state" where
  "copyLoop P s [] st = (OK, st)"
| "copyLoop P s (path # rest) st =
     (case CopyFile P s path (WorkingDirectory (Conf s)) st of
        (Err err, st') \<Rightarrow>
          (Err err,
           SendMessage (Name s)
             (''cannot copy file '' @ quoted path @ '': '' @ errorText err) MessageError st')
      | (OK, st') \<Rightarrow> copyLoop P s rest st'
      | (Panic m, st') \<Rightarrow> (Panic m, st'))"

definition CopyFiles' :: "'w platform \<Rightarrow> Service \<Rightarrow> 'w state \<Rightarrow> status \<times> 'w state" where
  "CopyFiles' P s st =
     (if length (CopyFiles (Conf s)) > 0 then
        (case copyLoop P s (CopyFiles (Conf s))
                (SendMessage (Name s) ''Copying files'' MessageNormal st) of
           (OK, st') \<Rightarrow> (OK, SendMessage (Name s) ''All files copied'' MessageSuccess st')
         | (r, st') \<Rightarrow> (r, st'))
      else (OK, st))"

text \<open>
  \<open>Service.DeleteFiles\<close>, in three parts: the loop over the configured paths, the
  removal of the log file and the removal of the working directory.  After a failed
  \<open>ConnectSftpClient\<close> the removal of the log file calls \<open>Remove\<close> on the nil
  \<open>SftClient\<close>.
\<close>

fun deleteLoop :: "'w platform \<Rightarrow> Service \<Rightarrow> string list \<Rightarrow> 'w state \<Rightarrow> status \<times> 'w state" where
  "deleteLoop P s [] st = (OK, st)"
| "deleteLoop P s (path # rest) st =
     (case DeleteFile P s path (WorkingDirectory (Conf s)) st of
        (Err err, st') \<Rightarrow>
          deleteLoop P s rest
            (SendMessage (Name s)
               (''cannot delete file '' @ quoted path @ '': '' @ errorText err) MessageWarning st')
      | (OK, st') \<Rightarrow> deleteLoop P s rest st'
      | (Panic m, st') \<Rightarrow> (Panic m, st'))"

definition deleteLogFile :: "'w platform \<Rightarrow> Service \<Rightarrow> 'w state \<Rightarrow> status \<times> 'w state" where
  "deleteLogFile P s st =
     (let cannot = (\<lambda>err. ''Cannot delete log file '' @ quoted (LogPath (Conf s)) @ '': '' @ errorText err);
          remove = (\<lambda>st.
            case sftpCall (Remove (LogPath (Conf s))) (sftpRemove P (LogPath (Conf s))) st of
              (Some err, st') \<Rightarrow> (OK, SendMessage (Name s) (cannot err) MessageError st')
            | (None, st') \<Rightarrow> (OK, SendMessage (Name s) ''Deleted'' MessageSuccess st'))
      in case ConnectSftpClient P
                (SendMessage (Name s)
                   (''Deleting log file '' @ quoted (LogPath (Conf s))) MessageNormal st) of
           (Err err, st') \<Rightarrow>
             (if SftClient st' then remove (SendMessage (Name s) (cannot err) MessageError st')
              else (Panic ''nil sftp client'', SendMessage (Name s) (cannot err) MessageError st'))
         | (OK, st') \<Rightarrow> remove st'
         | (Panic m, st') \<Rightarrow> (Panic m, st'))"

definition deleteWorkingDirectory :: "'w platform \<Rightarrow> Service \<Rightarrow> 'w state \<Rightarrow> status \<times> 'w state" where
  "deleteWorkingDirectory P s st =
     (let cannot = ''Cannot delete service working directory '' @ quoted (WorkingDirectory (Conf s)) in
      case DeleteDirIfEmpty P s (WorkingDirectory (Conf s))
             (SendMessage (Name s)
                (''Deleting service working directory '' @ quoted (WorkingDirectory (Conf s)))
                MessageNormal st) of
        (Err (StatusError code m), st') \<Rightarrow>
          (OK,
           SendMessage (Name s) ''Deleted'' MessageSuccess
             (SendMessage (Name s)
                (if code = 4 then cannot @ '': directory is not empty''
                 else cannot @ '': '' @ errorText (StatusError code m))
                MessageError st'))
      | (Panic m, st') \<Rightarrow> (Panic m, st')
      | (r, st') \<Rightarrow> (OK, SendMessage (Name s) ''Deleted'' MessageSuccess st'))"

definition DeleteFiles :: "'w platform \<Rightarrow> Service \<Rightarrow> bool \<Rightarrow> 'w state \<Rightarrow> status \<times> 'w state" where
  "DeleteFiles P s removeWorkingDirectory st =
     (case (if length (CopyFiles (Conf s)) > 0 then
              (case deleteLoop P s (CopyFiles (Conf s))
                      (SendMessage (Name s) ''Deleting files'' MessageNormal st) of
                 (OK, st') \<Rightarrow> (OK, SendMessage (Name s) ''All files deleted'' MessageSuccess st')
               | (r, st') \<Rightarrow> (r, st'))
            else (OK, st)) of
        (OK, st1) \<Rightarrow>
          (if removeWorkingDirectory then
             (case (if LogPath (Conf s) \<noteq> [] then deleteLogFile P s st1 else (OK, st1)) of
                (OK, st2) \<Rightarrow>
                  (if WorkingDirectory (Conf s) \<noteq> remoteHomeDir s
                   then deleteWorkingDirectory P s st2
                   else (OK, st2))
              | (r, st2) \<Rightarrow> (r, st2))
           else (OK, st1))
      | (r, st1) \<Rightarrow> (r, st1))"

definition DeleteServiceFile :: "'w platform \<Rightarrow> Service \<Rightarrow> 'w state \<Rightarrow> status \<times> 'w state" where
  "DeleteServiceFile P s st =
     PrintExec P s (''rm '' @ unitFileName s)
       (''cannot delete service file `'' @ unitFileName s @ ''`'') st"

definition ReloadDaemon :: "'w platform \<Rightarrow> Service \<Rightarrow> 'w state \<Rightarrow> status \<times> 'w state" where
  "ReloadDaemon P s st =
     PrintExec P s ''systemctl --user daemon-reload'' ''couldn't reload systemd daemon'' st"

definition ResetFailedServices :: "'w platform \<Rightarrow> Service \<Rightarrow> 'w state \<Rightarrow> status \<times> 'w state" where
  "ResetFailedServices P s st =
     PrintExec P s ''systemctl --user reset-failed'' ''couldn't reset failed systemd services'' st"

definition EnableService :: "'w platform \<Rightarrow> Service \<Rightarrow> 'w state \<Rightarrow> status \<times> 'w state" where
  "EnableService P s st =
     PrintExec P s (''systemctl --user enable '' @ Name s) ''couldn't enable systemd service'' st"

definition DisableService :: "'w platform \<Rightarrow> Service \<Rightarrow> 'w state \<Rightarrow> status \<times> 'w state" where
  "DisableService P s st =
     PrintExec P s (''systemctl --user disable '' @ Name s) ''couldn't disable systemd service'' st"

definition StopService :: "'w platform \<Rightarrow> Service \<Rightarrow> 'w state \<Rightarrow> status \<times> 'w state" where
  "StopService P s st =
     PrintExec P s (''systemctl --user stop '' @ Name s) ''couldn't stop systemd service'' st"

section \<open>Install and uninstall\<close>

definition Install :: "'w platform \<Rightarrow> Service \<Rightarrow> bool \<Rightarrow> 'w state \<Rightarrow> status \<times> 'w state" where
  "Install P s createWorkingDirectory st =
     (case CheckGo P s st of (OK, st) \<Rightarrow>
     (case CheckSystemd P s st of (OK, st) \<Rightarrow>
     (case CheckLingering P s st of (OK, st) \<Rightarrow>
     (case CheckWorkingDir P s createWorkingDirectory st of (OK, st) \<Rightarrow>
     (case AuthPrivateRepo P s st of (OK, st) \<Rightarrow>
     (case InstallExecutable P s st of (OK, st) \<Rightarrow>
     (case CopyFiles' P s st of (OK, st) \<Rightarrow>
     (case CreateServiceFile P s st of (OK, st) \<Rightarrow>
     (case ReloadDaemon P s st of (OK, st) \<Rightarrow>
     (case EnableService P s st of (OK, st) \<Rightarrow> (OK, st)
      | (err, st) \<Rightarrow> (err, st))
      | (err, st) \<Rightarrow> (err, st))
      | (err, st) \<Rightarrow> (err, st))
      | (err, st) \<Rightarrow> (err, st))
      | (err, st) \<Rightarrow> (err, st))
      | (err, st) \<Rightarrow> (err, st))
      | (err, st) \<Rightarrow> (err, st))
      | (err, st) \<Rightarrow> (err, st))
      | (err, st) \<Rightarrow> (err, st))
      | (err, st) \<Rightarrow> (err, st))"

text \<open>
  \<open>Service.Uninstall\<close> drops what each step returns; only a panic, which the last step
  alone can raise, is not a return.
\<close>

definition Uninstall :: "'w platform \<Rightarrow> Service \<Rightarrow> bool \<Rightarrow> 'w state \<Rightarrow> status \<times> 'w state" where
  "Uninstall P s removeWorkingDirectory st =
     (let st = snd (StopService P s st);
          st = snd (DisableService P s st);
          st = snd (DeleteServiceFile P s st);
          st = snd (ReloadDaemon P s st);
          st = snd (ResetFailedServices P s st);
          st = snd (DeleteExecutable P s st)
      in case DeleteFiles P s removeWorkingDirectory st of
           (Panic m, st) \<Rightarrow> (Panic m, st)
         | (r, st) \<Rightarrow> (OK, st))"

section \<open>The runner and the making of a service\<close>

record Runner =
  QuietMode :: bool
  confFilePath :: string
  conf :: "string \<rightharpoonup> Conf"
  services :: "string \<rightharpoonup> Service"

definition validateConf :: "Runner \<Rightarrow> Conf \<Rightarrow> error option" where
  "validateConf r c =
     (if Host c = [] then
        Some (Error (''required configuration `host` value is missing: please add `host: <hostname>` in `''
                     @ confFilePath r @ ''` file''))
      else if GoInstall c = [] then
        Some (Error (''required configuration `go_install` value is missing: please add `go_install: <package>` in `''
                     @ confFilePath r @ ''` file''))
      else None)"

text \<open>
  \<open>getExec\<close> returns the first group of the leftmost match of the expression
  \<open>\/?([-_\w]+)@.*\<close>.  At a position the expression matches when, after an optional
  slash, a run of letters, digits, \<open>_\<close> and \<open>-\<close> that cannot be extended is not empty
  and is followed by \<open>@\<close>; the group is that run.
\<close>

definition isWord :: "char \<Rightarrow> bool" where
  "isWord c =
     (c = CHR ''-'' \<or> c = CHR ''_''
      \<or> (48 \<le> (of_char c :: nat) \<and> (of_char c :: nat) \<le> 57)
      \<or> (65 \<le> (of_char c :: nat) \<and> (of_char c :: nat) \<le> 90)
      \<or> (97 \<le> (of_char c :: nat) \<and> (of_char c :: nat) \<le> 122))"

definition matchHere :: "string \<Rightarrow> string option" where
  "matchHere t =
     (let r = (case t of [] \<Rightarrow> [] | c # cs \<Rightarrow> if c = CHR ''/'' then cs else c # cs)
      in if takeWhile isWord r \<noteq> [] \<and> HasPrefix (dropWhile isWord r) ''@''
         then Some (takeWhile isWord r) else None)"

fun findMatch :: "string \<Rightarrow> string option" where
  "findMatch [] = None"
| "findMatch (c # cs) =
     (case matchHere (c # cs) of Some g \<Rightarrow> Some g | None \<Rightarrow> findMatch cs)"

definition getExec :: "string \<Rightarrow> string" where
  "getExec packageName = (case findMatch packageName of Some g \<Rightarrow> g | None \<Rightarrow> [])"

text \<open>
  The value of a field that is empty is asked of the host: the output of the command,
  or nothing when the command fails.
\<close>

definition queried :: "'w platform \<Rightarrow> string \<Rightarrow> string \<Rightarrow> 'w state \<Rightarrow> string \<times> 'w state" where
  "queried P val cmd st =
     (if val = [] then
        (case Service_Exec P cmd st of
           ((out, Some err), st') \<Rightarrow> ([], st')
         | ((out, None), st') \<Rightarrow> (out, st'))
      else (val, st))"

text \<open>\<open>Client.Connect\<close> on the client \<open>MakeClient\<close> has made.\<close>

definition Connect :: "'w platform \<Rightarrow> Conf \<Rightarrow> 'w state \<Rightarrow> error option \<times> 'w state" where
  "Connect P c st =
     (case dial P (User c) (Host c) (Port c) (PrivateKeyPath c) (world st) of
        (Some err, w) \<Rightarrow>
          (Some err, st\<lparr>world := w, calls := calls st @ [Dial (User c) (Host c) (Port c)]\<rparr>)
      | (None, w) \<Rightarrow>
          (None, st\<lparr>world := w, SshClient := True, SftClient := False,
                   calls := calls st @ [Dial (User c) (Host c) (Port c)]\<rparr>))"

text \<open>The default of \<open>exec_start\<close> in \<open>MakeService\<close>.\<close>

definition defaultExecStart :: "Conf \<Rightarrow> Conf" where
  "defaultExecStart c =
     (if ExecStart c = [] then
        (let exec = getExec (GoInstall c)
         in if exec \<noteq> [] then c\<lparr>ExecStart := Join [GoBinDirectory c, exec]\<rparr> else c)
      else c)"

text \<open>
  The defaults \<open>MakeService\<close> sets once the host has answered: \<open>pwd\<close> is the remote
  home directory, \<open>goBin\<close> and \<open>goExec\<close> are the configured or queried values of
  \<open>go_bin_directory\<close> and \<open>go_exec_path\<close>.
\<close>

definition serviceDefaults :: "string \<Rightarrow> string \<Rightarrow> string \<Rightarrow> Conf \<Rightarrow> Conf" where
  "serviceDefaults pwd goBin goExec c =
     (let c = c\<lparr>GoBinDirectory := goBin\<rparr>;
          c = c\<lparr>GoExecPath := (if goExec = [] then Join [goBin, ''go''] else goExec)\<rparr>;
          c = (if SystemdPath c = [] then c\<lparr>SystemdPath := ''systemd''\<rparr> else c);
          c = (if SystemdServicesDirectory c = []
               then c\<lparr>SystemdServicesDirectory := Join [pwd, ''.config/systemd/user'']\<rparr>
               else c);
          c = (if SystemdLingerDirectory c = []
               then c\<lparr>SystemdLingerDirectory := ''/var/lib/systemd/linger''\<rparr>
               else c);
          c = defaultExecStart c
      in if WorkingDirectory c = [] then c\<lparr>WorkingDirectory := pwd\<rparr> else c)"

text \<open>
  \<open>Runner.MakeService\<close> from the point where the client is connected.  The
  configuration is reached through a pointer, so every default set before a return
  stays in the runner's configuration.
\<close>

definition resolveService ::
  "'w platform \<Rightarrow> Runner \<Rightarrow> string \<Rightarrow> Conf \<Rightarrow> 'w state \<Rightarrow> (error + Service) \<times> Runner \<times> 'w state" where
  "resolveService P r name c st =
     (case Service_Exec P ''pwd'' st of
        ((pwd, Some err), st) \<Rightarrow> (Inl err, r\<lparr>conf := (conf r)(name \<mapsto> c)\<rparr>, st)
      | ((pwd, None), st) \<Rightarrow>
          (case queried P (GoBinDirectory c) ''go env GOBIN'' st of (goBin, st) \<Rightarrow>
          (case queried P goBin ''mise exec -- go env GOBIN'' st of (goBin, st) \<Rightarrow>
             (if goBin = [] then
                (Inl (Error (''$GOBIN environment variable is not set on the remote host: please set the $GOBIN env variable on the remote host or add `go_bin_directory: <path>` in `''
                             @ confFilePath r @ ''` file'')),
                 r\<lparr>conf := (conf r)(name \<mapsto> c\<lparr>GoBinDirectory := goBin\<rparr>)\<rparr>, st)
              else
                (case queried P (GoExecPath c) ''which go'' st of (goExec, st) \<Rightarrow>
                (case queried P goExec ''mise exec -- which go'' st of (goExec, st) \<Rightarrow>
                   (Inr \<lparr>Name = name, Conf = serviceDefaults pwd goBin goExec c,
                         remoteHomeDir = pwd, runnerConfFilePath = confFilePath r\<rparr>,
                    r\<lparr>conf := (conf r)(name \<mapsto> serviceDefaults pwd goBin goExec c),
                      services := (services r)(name \<mapsto>
                        \<lparr>Name = name, Conf = serviceDefaults pwd goBin goExec c,
                         remoteHomeDir = pwd, runnerConfFilePath = confFilePath r\<rparr>)\<rparr>,
                    st)))))))"

text \<open>The defaults of the connection, set at the start of \<open>MakeService\<close>.\<close>

definition connectionDefaults :: "'w platform \<Rightarrow> Conf \<Rightarrow> Conf" where
  "connectionDefaults P c =
     (let c = (if User c = []
               then (case currentUser P of Some u \<Rightarrow> c\<lparr>User := u\<rparr> | None \<Rightarrow> c)
               else c);
          c = (if Port c = [] then c\<lparr>Port := ''22''\<rparr> else c)
      in if PrivateKeyPath c = []
         then c\<lparr>PrivateKeyPath := Join [homeEnv P, ''/.ssh/id_rsa'']\<rparr>
         else c)"

definition MakeService ::
  "'w platform \<Rightarrow> Runner \<Rightarrow> string \<Rightarrow> 'w state \<Rightarrow> (error + Service) \<times> Runner \<times> 'w state" where
  "MakeService P r name st =
     (case services r name of
        Some s \<Rightarrow> (Inr s, r, st)
      | None \<Rightarrow>
          (case conf r name of
             None \<Rightarrow>
               (Inl (Error (''configuration for service `'' @ name
                            @ ''` was not found. Please add service configuration in `''
                            @ confFilePath r @ ''` file'')), r, st)
           | Some c \<Rightarrow>
               (case validateConf r c of
                  Some err \<Rightarrow> (Inl err, r, st)
                | None \<Rightarrow>
                    (case readKey P (PrivateKeyPath (connectionDefaults P c)) of
                       Some err \<Rightarrow>
                         (Inl err, r\<lparr>conf := (conf r)(name \<mapsto> connectionDefaults P c)\<rparr>, st)
                     | None \<Rightarrow>
                         (case Connect P (connectionDefaults P c) st of
                            (Some err, st) \<Rightarrow>
                              (Inl err, r\<lparr>conf := (conf r)(name \<mapsto> connectionDefaults P c)\<rparr>, st)
                          | (None, st) \<Rightarrow>
                              resolveService P r name (connectionDefaults P c) st)))))"

section \<open>The overlay of the environment\<close>

text \<open>
  \<open>strings.ToUpper\<close>, which the program applies to texts of ASCII only: the tags of the
  fields and the mapped service name.
\<close>

definition upperChar :: "char \<Rightarrow> char" where
  "upperChar c =
     (if 97 \<le> (of_char c :: nat) \<and> (of_char c :: nat) \<le> 122
      then char_of ((of_char c :: nat) - 32) else c)"

definition ToUpper :: "string \<Rightarrow> string" where
  "ToUpper t = map upperChar t"

text \<open>
  \<open>strings.Map\<close> reads its argument rune by rune.  \<open>runeLen\<close> is the number of bytes
  \<open>utf8.DecodeRuneInString\<close> takes for the first rune: a well-formed sequence of two,
  three or four bytes, and one byte in every other case.
\<close>

definition contByte :: "char \<Rightarrow> bool" where
  "contByte c = (128 \<le> (of_char c :: nat) \<and> (of_char c :: nat) \<le> 191)"

definition secondByte :: "nat \<Rightarrow> char \<Rightarrow> bool" where
  "secondByte b c =
     ((if b = 224 then 160 else if b = 240 then 144 else 128) \<le> (of_char c :: nat)
      \<and> (of_char c :: nat) \<le> (if b = 237 then 159 else if b = 244 then 143 else 191))"

fun runeLen :: "string \<Rightarrow> nat" where
  "runeLen [] = 0"
| "runeLen (c # cs) =
     (let b = (of_char c :: nat) in
      if 194 \<le> b \<and> b \<le> 223 then
        (case cs of c1 # r \<Rightarrow> if secondByte b c1 then 2 else 1 | _ \<Rightarrow> 1)
      else if 224 \<le> b \<and> b \<le> 239 then
        (case cs of c1 # c2 # r \<Rightarrow> if secondByte b c1 \<and> contByte c2 then 3 else 1 | _ \<Rightarrow> 1)
      else if 240 \<le> b \<and> b \<le> 244 then
        (case cs of
           c1 # c2 # c3 # r \<Rightarrow> if secondByte b c1 \<and> contByte c2 \<and> contByte c3 then 4 else 1
         | _ \<Rightarrow> 1)
      else 1)"

text \<open>
  The function \<open>trim\<close> of \<open>serviceNameToEnvName\<close> keeps the letters and digits of ASCII
  and turns every other rune into an underscore; \<open>mapTrim k\<close> maps a text whose first
  \<open>k\<close> bytes still belong to the rune before.
\<close>

definition alnum :: "char \<Rightarrow> bool" where
  "alnum c =
     ((65 \<le> (of_char c :: nat) \<and> (of_char c :: nat) \<le> 90)
      \<or> (97 \<le> (of_char c :: nat) \<and> (of_char c :: nat) \<le> 122)
      \<or> (48 \<le> (of_char c :: nat) \<and> (of_char c :: nat) \<le> 57))"

fun mapTrim :: "nat \<Rightarrow> string \<Rightarrow> string" where
  "mapTrim k [] = []"
| "mapTrim (Suc k) (c # cs) = mapTrim k cs"
| "mapTrim 0 (c # cs) = (if alnum c then c else CHR ''_'') # mapTrim (runeLen (c # cs) - 1) cs"

definition digit :: "char \<Rightarrow> bool" where
  "digit c = (48 \<le> (of_char c :: nat) \<and> (of_char c :: nat) \<le> 57)"

definition serviceNameToEnvName :: "string \<Rightarrow> string" where
  "serviceNameToEnvName name =
     (if length name = 0 then []
      else
        (case ToUpper (mapTrim 0 name) of
           [] \<Rightarrow> []
         | c # cs \<Rightarrow> if digit c then ''_'' @ c # cs else c # cs))"

text \<open>
  \<open>strconv.Atoi\<close>: an optional sign and at least one decimal digit, with a value that
  fits 64 bits.
\<close>

fun decimal :: "int \<Rightarrow> string \<Rightarrow> int" where
  "decimal acc [] = acc"
| "decimal acc (c # cs) = decimal (10 * acc + ((of_char c :: int) - 48)) cs"

definition Atoi :: "string \<Rightarrow> int option" where
  "Atoi t =
     (let neg = HasPrefix t ''-'';
          ds = (if HasPrefix t ''-'' \<or> HasPrefix t ''+'' then tl t else t);
          i = (if neg then - decimal 0 ds else decimal 0 ds)
      in if ds = [] \<or> \<not> list_all digit ds then None
         else if - (2 ^ 63) \<le> i \<and> i < 2 ^ 63 then Some i
         else None)"

text \<open>
  \<open>loadConfFromEnv\<close>.  The environment gives the empty text for a variable that is not
  set.  A field of type \<open>string\<close> takes a value that is not empty, a field of type
  \<open>int\<close> takes it when \<open>Atoi\<close> accepts it, and the switch has no case for the other
  types.
\<close>

definition envKey :: "string \<Rightarrow> string \<Rightarrow> string" where
  "envKey name tag = serviceNameToEnvName name @ ''_'' @ ToUpper tag"

definition envString :: "(string \<Rightarrow> string) \<Rightarrow> string \<Rightarrow> string \<Rightarrow> string \<Rightarrow> string" where
  "envString env name tag old =
     (if env (envKey name tag) \<noteq> [] then env (envKey name tag) else old)"

definition envInt :: "(string \<Rightarrow> string) \<Rightarrow> string \<Rightarrow> string \<Rightarrow> int \<Rightarrow> int" where
  "envInt env name tag old =
     (if env (envKey name tag) \<noteq> []
      then (case Atoi (env (envKey name tag)) of Some i \<Rightarrow> i | None \<Rightarrow> old)
      else old)"

definition loadFields :: "(string \<Rightarrow> string) \<Rightarrow> string \<Rightarrow> Conf \<Rightarrow> Conf" where
  "loadFields env name c =
     \<lparr>User = envString env name ''user'' (User c),
      Host = envString env name ''host'' (Host c),
      Port = envString env name ''port'' (Port c),
      PrivateKeyPath = envString env name ''private_key_path'' (PrivateKeyPath c),
      GoExecPath = envString env name ''go_exec_path'' (GoExecPath c),
      GoBinDirectory = envString env name ''go_bin_directory'' (GoBinDirectory c),
      GoInstall = envString env name ''go_install'' (GoInstall c),
      GoPrivate = envString env name ''go_private'' (GoPrivate c),
      NetrcMachine = envString env name ''netrc_machine'' (NetrcMachine c),
      NetrcLogin = envString env name ''netrc_login'' (NetrcLogin c),
      NetrcPassword = envString env name ''netrc_password'' (NetrcPassword c),
      SystemdPath = envString env name ''systemd_path'' (SystemdPath c),
      SystemdServicesDirectory =
        envString env name ''systemd_services_directory'' (SystemdServicesDirectory c),
      SystemdLingerDirectory =
        envString env name ''systemd_linger_directory'' (SystemdLingerDirectory c),
      ExecStart = envString env name ''exec_start'' (ExecStart c),
      WorkingDirectory = envString env name ''working_directory'' (WorkingDirectory c),
      Environment = envString env name ''environment'' (Environment c),
      LogPath = envString env name ''log_path'' (LogPath c),
      RunAfterService = envString env name ''run_after_service'' (RunAfterService c),
      StartLimitBurst = envInt env name ''start_limit_burst'' (StartLimitBurst c),
      StartLimitIntervalSec =
        envInt env name ''start_limit_interval_sec'' (StartLimitIntervalSec c),
      RestartSec = envInt env name ''restart_sec'' (RestartSec c),
      CopyFiles = CopyFiles c,
      Ignore = Ignore c\<rparr>"

definition loadConfFromEnv ::
  "(string \<Rightarrow> string) \<Rightarrow> (string \<rightharpoonup> Conf) \<Rightarrow> (string \<rightharpoonup> Conf)" where
  "loadConfFromEnv env cf = (\<lambda>name. map_option (loadFields env name) (cf name))"

section \<open>A remote file tree\<close>

text \<open>
  A host whose state is its file tree: a list of the paths that exist, each a file with
  its content or a directory, in the order they were made.  The operations follow
  SFTP: a path is made in a directory that exists, \<open>MkdirAll\<close> makes the missing
  ancestors first, \<open>Create\<close> truncates a file that exists, a directory is removed only
  when no path lies in it, and \<open>Remove\<close> removes a file or an empty directory.  Paths
  are taken as the client gives them; the roots \<open>/\<close> and \<open>.\<close> always exist.  The
  platform is used with plain service names only, and answers a template with an
  empty buffer.
\<close>

datatype rnode = RFile string | RDir

type_synonym rfs = "(string \<times> rnode) list"

definition parentOf :: "string \<Rightarrow> string option" where
  "parentOf p = (let d = fst (Split p) in if length d > 1 then Some (butlast d) else None)"

definition lookupR :: "rfs \<Rightarrow> string \<Rightarrow> rnode option" where
  "lookupR fs p = (if p = ''/'' \<or> p = ''.'' then Some RDir else map_of fs p)"

definition hasParent :: "rfs \<Rightarrow> string \<Rightarrow> bool" where
  "hasParent fs p = (case parentOf p of None \<Rightarrow> True | Some q \<Rightarrow> lookupR fs q = Some RDir)"

definition fsDelete :: "string \<Rightarrow> rfs \<Rightarrow> rfs" where
  "fsDelete p fs = filter (\<lambda>(q, n). q \<noteq> p) fs"

fun fsUpdate :: "string \<Rightarrow> rnode \<Rightarrow> rfs \<Rightarrow> rfs" where
  "fsUpdate p n [] = [(p, n)]"
| "fsUpdate p n ((q, m) # fs) = (if q = p then (p, n) # fs else (q, m) # fsUpdate p n fs)"

text \<open>
  The errors of the client.  It hands the status \<open>SSH_FX_NO_SUCH_FILE\<close> to its caller as
  \<open>os.ErrNotExist\<close>, which is no \<open>*sftp.StatusError\<close>, and the status
  \<open>SSH_FX_FAILURE\<close> as an \<open>*sftp.StatusError\<close> of code 4.
\<close>

definition noSuchFile :: error where
  "noSuchFile = Error ''file does not exist''"

definition failure :: error where
  "failure = StatusError 4 (''sftp: '' @ [CHR 0x22] @ ''Failure'' @ [CHR 0x22] @ '' (SSH_FX_FAILURE)'')"

definition fsMkdir :: "string \<Rightarrow> rfs \<Rightarrow> error option \<times> rfs" where
  "fsMkdir p fs =
     (if lookupR fs p \<noteq> None then (Some failure, fs)
      else if hasParent fs p then (None, fs @ [(p, RDir)])
      else (Some noSuchFile, fs))"

text \<open>
  \<open>MkdirAll\<close> of the client: nothing to do for a directory, an error for a file, and
  otherwise the parent first.  The first argument bounds the depth; the length of the
  path is enough, since a parent is shorter than its path.
\<close>

fun mkdirAllN :: "nat \<Rightarrow> string \<Rightarrow> rfs \<Rightarrow> error option \<times> rfs" where
  "mkdirAllN 0 p fs = (Some failure, fs)"
| "mkdirAllN (Suc k) p fs =
     (case lookupR fs p of
        Some RDir \<Rightarrow> (None, fs)
      | Some (RFile b) \<Rightarrow> (Some (Error (''mkdir '' @ p @ '': not a directory'')), fs)
      | None \<Rightarrow>
          (case parentOf p of
             None \<Rightarrow> fsMkdir p fs
           | Some q \<Rightarrow>
               (case mkdirAllN k q fs of
                  (Some err, fs') \<Rightarrow> (Some err, fs')
                | (None, fs') \<Rightarrow> fsMkdir p fs')))"

definition fsMkdirAll :: "string \<Rightarrow> rfs \<Rightarrow> error option \<times> rfs" where
  "fsMkdirAll p fs = mkdirAllN (Suc (length p)) p fs"

definition fsCreate :: "string \<Rightarrow> rfs \<Rightarrow> error option \<times> rfs" where
  "fsCreate p fs =
     (case lookupR fs p of
        Some RDir \<Rightarrow> (Some failure, fs)
      | Some (RFile b) \<Rightarrow> (None, fsUpdate p (RFile []) fs)
      | None \<Rightarrow> if hasParent fs p then (None, fs @ [(p, RFile [])]) else (Some noSuchFile, fs))"

definition fsReadFrom :: "string \<Rightarrow> string \<Rightarrow> rfs \<Rightarrow> error option \<times> rfs" where
  "fsReadFrom p bytes fs =
     (case map_of fs p of
        Some (RFile b) \<Rightarrow> (None, fsUpdate p (RFile bytes) fs)
      | _ \<Rightarrow> (Some failure, fs))"

definition isEmptyDir :: "rfs \<Rightarrow> string \<Rightarrow> bool" where
  "isEmptyDir fs p = (\<not> list_ex (\<lambda>(q, n). parentOf q = Some p) fs)"

definition fsRemoveDirectory :: "string \<Rightarrow> rfs \<Rightarrow> error option \<times> rfs" where
  "fsRemoveDirectory p fs =
     (case map_of fs p of
        Some RDir \<Rightarrow> if isEmptyDir fs p then (None, fsDelete p fs) else (Some failure, fs)
      | Some (RFile b) \<Rightarrow> (Some noSuchFile, fs)
      | None \<Rightarrow> (Some noSuchFile, fs))"

definition fsRemove :: "string \<Rightarrow> rfs \<Rightarrow> error option \<times> rfs" where
  "fsRemove p fs =
     (case map_of fs p of
        Some (RFile b) \<Rightarrow> (None, fsDelete p fs)
      | _ \<Rightarrow> fsRemoveDirectory p fs)"

definition fsPlatform :: "(string \<Rightarrow> ran) \<Rightarrow> (string \<Rightarrow> entry option) \<Rightarrow> rfs platform" where
  "fsPlatform script local =
     \<lparr>sessionRun = (\<lambda>cmd w. (script cmd, w)),
      sftpNewClient = (\<lambda>w. (None, w)),
      sftpMkdirAll = fsMkdirAll,
      sftpCreate = fsCreate,
      sftpReadFrom = fsReadFrom,
      sftpRemove = fsRemove,
      sftpRemoveDirectory = fsRemoveDirectory,
      lstat = local,
      currentUser = Some ''me'',
      homeEnv = ''/home/me'',
      readKey = (\<lambda>p. None),
      dial = (\<lambda>u h p k w. (None, w)),
      executeTemplate = (\<lambda>t c. Inr [])\<rparr>"

section \<open>The pipelines in the words of the specification\<close>

text \<open>
  The install pipeline as the specification words it: a fixed list of steps, run in
  order until the first one that does not return \<open>nil\<close>, whose result is the result of
  the run.
\<close>

fun failFast :: "('s \<Rightarrow> status \<times> 's) list \<Rightarrow> 's \<Rightarrow> status \<times> 's" where
  "failFast [] st = (OK, st)"
| "failFast (step # steps) st =
     (case step st of (OK, st') \<Rightarrow> failFast steps st' | (r, st') \<Rightarrow> (r, st'))"

definition installSteps ::
  "'w platform \<Rightarrow> Service \<Rightarrow> bool \<Rightarrow> ('w state \<Rightarrow> status \<times> 'w state) list" where
  "installSteps P s createWorkingDirectory =
     [CheckGo P s, CheckSystemd P s, CheckLingering P s,
      CheckWorkingDir P s createWorkingDirectory, AuthPrivateRepo P s, InstallExecutable P s,
      CopyFiles' P s, CreateServiceFile P s, ReloadDaemon P s, EnableService P s]"

text \<open>
  The steps of the uninstall pipeline that come before the deletion of the files, and
  their unconditional run: each step works on the state the one before left,
  whatever that one returned.
\<close>

fun runAll :: "('s \<Rightarrow> status \<times> 's) list \<Rightarrow> 's \<Rightarrow> 's" where
  "runAll [] st = st"
| "runAll (step # steps) st = runAll steps (snd (step st))"

definition uninstallSteps :: "'w platform \<Rightarrow> Service \<Rightarrow> ('w state \<Rightarrow> status \<times> 'w state) list" where
  "uninstallSteps P s =
     [StopService P s, DisableService P s, DeleteServiceFile P s, ReloadDaemon P s,
      ResetFailedServices P s, DeleteExecutable P s]"

section \<open>The mirror in the words of the specification\<close>

text \<open>
  The remote paths of a walk, each with the local entry it stands for, in the order of
  the visits; the node a copied entry leaves on the host; and the condition under
  which a copy makes the visited paths and nothing else: when the copy reaches a
  path, the path does not exist and its parent directory does, and a file can be
  read.  A file tree is well formed when every path in it lies in a directory.
\<close>

fun remoteVisits :: "string \<Rightarrow> (string \<times> entry) list \<Rightarrow> string list \<Rightarrow> (string \<times> entry) list" where
  "remoteVisits dstDir [] dirs = []"
| "remoteVisits dstDir ((path, info) # rest) dirs =
     (case visit dstDir dirs path (IsDir info) of
        (dstPath, dirs') \<Rightarrow> (dstPath, info) # remoteVisits dstDir rest dirs')"

fun nodeOf :: "entry \<Rightarrow> rnode" where
  "nodeOf (Dir n es) = RDir"
| "nodeOf (File n (Inr bytes)) = RFile bytes"
| "nodeOf (File n (Inl e)) = RFile []"

fun readable :: "entry \<Rightarrow> bool" where
  "readable (File n (Inl e)) = False"
| "readable info = True"

fun freshFor :: "rfs \<Rightarrow> (string \<times> entry) list \<Rightarrow> bool" where
  "freshFor fs [] = True"
| "freshFor fs ((p, info) # vs) =
     (lookupR fs p = None \<and> hasParent fs p \<and> readable info
      \<and> freshFor (fs @ [(p, nodeOf info)]) vs)"

definition wellFormed :: "rfs \<Rightarrow> bool" where
  "wellFormed fs = list_all (\<lambda>(q, n). hasParent fs q) fs"

definition filePaths :: "(string \<times> entry) list \<Rightarrow> string list" where
  "filePaths vs = map fst (filter (\<lambda>(p, info). \<not> IsDir info) vs)"

definition dirPaths :: "(string \<times> entry) list \<Rightarrow> string list" where
  "dirPaths vs = map fst (filter (\<lambda>(p, info). IsDir info) vs)"

text \<open>The calls a copy makes for its visits.\<close>

fun copyCalls :: "(string \<times> entry) list \<Rightarrow> call list" where
  "copyCalls [] = []"
| "copyCalls ((p, Dir n es) # vs) = MkdirAll p # copyCalls vs"
| "copyCalls ((p, File n c) # vs) =
     Create p # ReadFrom p (case c of Inr b \<Rightarrow> b | Inl e \<Rightarrow> []) # copyCalls vs"

section \<open>The unit file in the words of the specification\<close>




section \<open>The overlay in the words of the specification\<close>

text \<open>
  The fields the overlay reaches, as a table from the key of a field to the field: the
  fields of type \<open>string\<close> and the fields of type \<open>int\<close>.
\<close>

definition stringFields :: "(string \<times> (Conf \<Rightarrow> string)) list" where
  "stringFields =
     [(''user'', User), (''host'', Host), (''port'', Port),
      (''private_key_path'', PrivateKeyPath), (''go_exec_path'', GoExecPath),
      (''go_bin_directory'', GoBinDirectory), (''go_install'', GoInstall),
      (''go_private'', GoPrivate), (''netrc_machine'', NetrcMachine),
      (''netrc_login'', NetrcLogin), (''netrc_password'', NetrcPassword),
      (''systemd_path'', SystemdPath),
      (''systemd_services_directory'', SystemdServicesDirectory),
      (''systemd_linger_directory'', SystemdLingerDirectory), (''exec_start'', ExecStart),
      (''working_directory'', WorkingDirectory), (''environment'', Environment),
      (''log_path'', LogPath), (''run_after_service'', RunAfterService)]"

definition intFields :: "(string \<times> (Conf \<Rightarrow> int)) list" where
  "intFields =
     [(''start_limit_burst'', StartLimitBurst),
      (''start_limit_interval_sec'', StartLimitIntervalSec), (''restart_sec'', RestartSec)]"

section \<open>Concrete platforms and inputs\<close>

text \<open>
  A platform whose commands answer by a fixed script and whose file transfer always
  succeeds; its world has no state.  The services of this section have plain names,
  so no platform here is asked for a template; each answers with an empty buffer.
\<close>

definition scriptPlatform :: "(string \<Rightarrow> ran) \<Rightarrow> (string \<Rightarrow> entry option) \<Rightarrow> unit platform" where
  "scriptPlatform script local =
     \<lparr>sessionRun = (\<lambda>cmd w. (script cmd, w)),
      sftpNewClient = (\<lambda>w. (None, w)),
      sftpMkdirAll = (\<lambda>p w. (None, w)),
      sftpCreate = (\<lambda>p w. (None, w)),
      sftpReadFrom = (\<lambda>p b w. (None, w)),
      sftpRemove = (\<lambda>p w. (None, w)),
      sftpRemoveDirectory = (\<lambda>p w. (None, w)),
      lstat = local,
      currentUser = Some ''me'',
      homeEnv = ''/home/me'',
      readKey = (\<lambda>p. None),
      dial = (\<lambda>u h p k w. (None, w)),
      executeTemplate = (\<lambda>t c. Inr [])\<rparr>"

definition connected :: "'w \<Rightarrow> 'w state" where
  "connected w = \<lparr>world = w, SshClient = True, SftClient = False, calls = [], outputCh = []\<rparr>"

text \<open>A walk function that only records the local and the remote path of each visit.\<close>

definition recordVisit ::
  "string \<Rightarrow> string \<Rightarrow> entry \<Rightarrow> (string \<times> string) list \<Rightarrow> status \<times> (string \<times> string) list" where
  "recordVisit path dstPath info seen = (OK, seen @ [(path, dstPath)])"

text \<open>The directory \<open>a\<close> holding the directory \<open>b\<close>, itself holding the empty directory \<open>c\<close>, and the file \<open>z\<close>.\<close>

definition nestedTree :: entry where
  "nestedTree = Dir ''a'' [Dir ''b'' [Dir ''c'' []], File ''z'' (Inr ''data'')]"

definition shellScript :: "string \<Rightarrow> ran" where
  "shellScript cmd =
     (if cmd = ''pwd'' then Ran ''/home/u\<newline>'' [] None
      else Ran [] ''sh: command not found\<newline>'' (Some (Error ''Process exited with status 127'')))"

text \<open>A resolved configuration and its service; \<open>mirrorService\<close> also mirrors the local tree \<open>a\<close>.\<close>

definition demoConf :: Conf where
  "demoConf =
     \<lparr>User = ''u'', Host = ''example.org'', Port = ''22'',
      PrivateKeyPath = ''/home/me/.ssh/id_rsa'', GoExecPath = ''/usr/local/go/bin/go'',
      GoBinDirectory = ''/home/u/go/bin'', GoInstall = ''github.com/pioz/srv@latest'',
      GoPrivate = [], NetrcMachine = [], NetrcLogin = [], NetrcPassword = [],
      SystemdPath = ''systemd'', SystemdServicesDirectory = ''/home/u/.config/systemd/user'',
      SystemdLingerDirectory = ''/var/lib/systemd/linger'', ExecStart = ''/home/u/go/bin/srv'',
      WorkingDirectory = ''/home/u'', Environment = [], LogPath = [], RunAfterService = [],
      StartLimitBurst = 0, StartLimitIntervalSec = 0, RestartSec = 0, CopyFiles = [],
      Ignore = False\<rparr>"

definition demoService :: Service where
  "demoService =
     \<lparr>Name = ''srv'', Conf = demoConf, remoteHomeDir = ''/home/u'', runnerConfFilePath = ''.god.yml''\<rparr>"

definition mirrorService :: Service where
  "mirrorService = demoService\<lparr>Conf := demoConf\<lparr>CopyFiles := [''a'']\<rparr>\<rparr>"

definition localTree :: "string \<Rightarrow> entry option" where
  "localTree p = (if p = ''a'' then Some nestedTree else None)"

text \<open>A host on which the checks of the runtime and of the supervisor pass and the user is not lingering.\<close>

definition lingerScript :: "string \<Rightarrow> ran" where
  "lingerScript cmd =
     (if cmd = ''/usr/local/go/bin/go version'' then Ran ''go version go1.18 linux/amd64\<newline>'' [] None
      else if cmd = ''systemd --version'' then Ran ''systemd 249\<newline>'' [] None
      else if cmd = ''ls /var/lib/systemd/linger'' then Ran ''alice\<newline>bob\<newline>'' [] None
      else Ran [] [] None)"


text \<open>
  A configuration as read from the file, before any default is resolved, the script of
  a host that answers the queries of \<open>MakeService\<close>, and a runner that knows the service
  \<open>srv\<close>.
\<close>

definition rawConf :: Conf where
  "rawConf =
     demoConf\<lparr>User := [], Port := [], PrivateKeyPath := [], GoExecPath := [], GoBinDirectory := [],
       SystemdPath := [], SystemdServicesDirectory := [], SystemdLingerDirectory := [],
       ExecStart := [], WorkingDirectory := []\<rparr>"

definition hostScript :: "string \<Rightarrow> ran" where
  "hostScript cmd =
     (if cmd = ''pwd'' then Ran ''/home/u\<newline>'' [] None
      else if cmd = ''go env GOBIN'' then Ran ''/home/u/go/bin\<newline>'' [] None
      else if cmd = ''which go'' then Ran ''/usr/local/go/bin/go\<newline>'' [] None
      else Ran [] ''not found\<newline>'' (Some (Error ''Process exited with status 1'')))"

definition demoRunner :: "Conf \<Rightarrow> Runner" where
  "demoRunner c =
     \<lparr>QuietMode = False, confFilePath = ''.god.yml'', conf = [''srv'' \<mapsto> c],
      services = Map.empty\<rparr>"

text \<open>Two environments for the service \<open>foo\<close>.\<close>

definition hostEnv :: "string \<Rightarrow> string" where
  "hostEnv k = (if k = ''FOO_HOST'' then ''1.2.3.4'' else if k = ''FOO_RESTART_SEC'' then ''7'' else [])"

definition oddEnv :: "string \<Rightarrow> string" where
  "oddEnv k =
     (if k = ''FOO_RESTART_SEC'' then ''soon''
      else if k = ''FOO_IGNORE'' then ''true''
      else if k = ''FOO_COPY_FILES'' then ''assets''
      else [])"

text \<open>
  A host whose only state is the file \<open>~/.netrc\<close>, absent or with its content: \<open>cat\<close>
  prints it, and \<open>echo\<close> of a quoted text redirected to it replaces its content by the
  text and a line break.  The service \<open>privateService\<close> installs from a private
  repository.
\<close>

definition netrcRun :: "string \<Rightarrow> string option \<Rightarrow> ran \<times> string option" where
  "netrcRun cmd w =
     (if cmd = ''cat ~/.netrc'' then
        (case w of
           None \<Rightarrow>
             (Ran [] ''cat: .netrc: No such file or directory\<newline>''
                (Some (Error ''Process exited with status 1'')), w)
         | Some content \<Rightarrow> (Ran content [] None, w))
      else if HasPrefix cmd (''echo '' @ [CHR 0x27]) \<and> HasSuffix cmd ([CHR 0x27] @ '' > ~/.netrc'')
      then (Ran [] [] None, Some (take (length cmd - 18) (drop 6 cmd) @ ''\<newline>''))
      else (Ran [] [] None, w))"

definition netrcPlatform :: "string option platform" where
  "netrcPlatform =
     \<lparr>sessionRun = netrcRun,
      sftpNewClient = (\<lambda>w. (None, w)),
      sftpMkdirAll = (\<lambda>p w. (None, w)),
      sftpCreate = (\<lambda>p w. (None, w)),
      sftpReadFrom = (\<lambda>p b w. (None, w)),
      sftpRemove = (\<lambda>p w. (None, w)),
      sftpRemoveDirectory = (\<lambda>p w. (None, w)),
      lstat = (\<lambda>p. None),
      currentUser = Some ''me'',
      homeEnv = ''/home/me'',
      readKey = (\<lambda>p. None),
      dial = (\<lambda>u h p k w. (None, w)),
      executeTemplate = (\<lambda>t c. Inr [])\<rparr>"

definition privateService :: Service where
  "privateService =
     demoService\<lparr>Conf := demoConf\<lparr>GoPrivate := ''github.com/pioz/private'',
       NetrcMachine := ''github.com'', NetrcLogin := ''bob'', NetrcPassword := ''s3cret''\<rparr>\<rparr>"

definition otherNetrc :: string where
  "otherNetrc = ''machine gitlab.com login al password x\<newline>''"

definition listedNetrc :: string where
  "listedNetrc = ''machine github.com login bob password s3cret\<newline>'' @ otherNetrc"

text \<open>
  A remote tree with the home directory \<open>/home/u\<close> and a file in it, a local file
  \<open>f\<close>, and a service that mirrors the local directory \<open>.\<close> into its working directory,
  the home directory.
\<close>

definition homeTree :: rfs where
  "homeTree = [(''/home'', RDir), (''/home/u'', RDir), (''/home/u/f'', RFile ''old'')]"

definition fileLocal :: "string \<Rightarrow> entry option" where
  "fileLocal p = (if p = ''f'' then Some (File ''f'' (Inr ''new'')) else None)"

definition dotLocal :: "string \<Rightarrow> entry option" where
  "dotLocal p = (if p = ''.'' then Some (Dir ''.'' [File ''f'' (Inr ''new'')]) else None)"

definition dotService :: Service where
  "dotService = demoService\<lparr>Conf := demoConf\<lparr>CopyFiles := [''.'']\<rparr>\<rparr>"

section \<open>Properties\<close>

subsection \<open>Output and error of a command\<close>

text \<open>
  C6.  For a command run over a session of a connected client, \<open>Service.Exec\<close> returns
  the standard output and no error when \<open>Run\<close> gave no error, and the standard error
  together with the error of \<open>Run\<close> otherwise; in both cases one line break at the end of
  the returned text is removed.
\<close>

theorem Exec_output_or_diagnostic:
  assumes "SshClient s" and "sessionRun P cmd (world s) = (Ran out errout r, w)"
  shows "fst (Service_Exec P cmd s) =
           (case r of None \<Rightarrow> (TrimSuffix out ''\<newline>'', None)
                    | Some e \<Rightarrow> (TrimSuffix errout ''\<newline>'', Some e))
         \<and> TrimSuffix (t @ ''\<newline>'') ''\<newline>'' = t
         \<and> TrimSuffix t ''\<newline>'' = (if HasSuffix t ''\<newline>'' then butlast t else t)"
  using assms
  by (simp add: Service_Exec_def Client_Exec_def TrimSuffix_def HasSuffix_def butlast_conv_take
      split: option.split)

theorem Exec_output_or_diagnostic_witness:
  "fst (Service_Exec (scriptPlatform shellScript (\<lambda>p. None)) ''pwd'' (connected ())) =
     (''/home/u'', None)
   \<and> fst (Service_Exec (scriptPlatform shellScript (\<lambda>p. None)) ''gox version'' (connected ())) =
     (''sh: command not found'', Some (Error ''Process exited with status 127''))"
  using
    Exec_output_or_diagnostic [of "connected ()" "scriptPlatform shellScript (\<lambda>p. None)" "''pwd''"
      "''/home/u\<newline>''" "[]" None "()" "[]"]
    Exec_output_or_diagnostic [of "connected ()" "scriptPlatform shellScript (\<lambda>p. None)"
      "''gox version''" "[]" "''sh: command not found\<newline>''"
      "Some (Error ''Process exited with status 127'')" "()" "[]"]
  by (simp add: connected_def scriptPlatform_def shellScript_def TrimSuffix_def HasSuffix_def)

subsection \<open>Remote paths of the walk\<close>

text \<open>
  C7.  On the tree \<open>a\<close> with the nested directories \<open>a/b/c\<close> and the file \<open>a/z\<close>, walked
  from \<open>a\<close> into \<open>/srv\<close>, the walk leaves two directories before it visits \<open>a/z\<close> and
  pops one: the remote path of \<open>a/z\<close> is \<open>/srv/a/b/z\<close>, not \<open>/srv/a/z\<close>.
\<close>

theorem WalkDir_pops_one_level:
  "WalkDir (\<lambda>p. if p = ''a'' then Some nestedTree else None) ''a'' ''/srv'' recordVisit [] =
     (OK, [(''a'', ''/srv/a''), (''a/b'', ''/srv/a/b''), (''a/b/c'', ''/srv/a/b/c''),
           (''a/z'', ''/srv/a/b/z'')])"
  by code_simp

subsection \<open>The install pipeline\<close>

lemma failFast_append:
  "failFast (xs @ ys) st = (case failFast xs st of (OK, st') \<Rightarrow> failFast ys st' | (r, st') \<Rightarrow> (r, st'))"
  by (induction xs arbitrary: st) (auto split: prod.splits status.splits)

lemma failFast_nth:
  assumes "k < length steps" "failFast (take k steps) st = (OK, st1)" "(steps ! k) st1 = (Err e, st2)"
  shows "failFast steps st = (Err e, st2)"
proof -
  have "steps = take k steps @ (steps ! k) # drop (Suc k) steps"
    using assms(1) by (simp add: id_take_nth_drop)
  then have "failFast steps st = failFast (take k steps @ (steps ! k) # drop (Suc k) steps) st"
    by simp
  also have "\<dots> = (Err e, st2)"
    using assms(2,3) by (simp add: failFast_append)
  finally show ?thesis .
qed

lemma Install_failFast: "Install P s c st = failFast (installSteps P s c) st"
  by (simp add: Install_def installSteps_def split: prod.splits status.splits)

lemma PrintExec_calls:
  "calls (snd (PrintExec P s cmd msg st)) = calls st @ (if SshClient st then [Exec cmd] else [])"
  by (simp add: PrintExec_def Service_Exec_def Client_Exec_def SendMessage_def
      split: prod.splits option.splits ran.splits)

lemma PrintExec_ssh: "SshClient (snd (PrintExec P s cmd msg st)) = SshClient st"
  by (simp add: PrintExec_def Service_Exec_def Client_Exec_def SendMessage_def
      split: prod.splits option.splits ran.splits)


text \<open>
  C1.  \<open>Install\<close> runs the ten steps in the order check of the runtime, check of the
  supervisor, check of lingering, working directory, credentials, install of the
  package, copy of the files, unit file, reload, enable, and stops at the first that
  returns an error: when the steps before the \<open>k\<close>-th return \<open>nil\<close> and the \<open>k\<close>-th
  returns an error, \<open>Install\<close> returns that error and the state is the one that step
  left, so no later step has run.  When the check of the runtime fails, the only call
  made is its version command.
\<close>

theorem Install_stops_at_first_error:
  "Install P s c st = failFast (installSteps P s c) st
   \<and> (\<forall>k st1 e st2.
         k < length (installSteps P s c)
         \<and> failFast (take k (installSteps P s c)) st = (OK, st1)
         \<and> (installSteps P s c ! k) st1 = (Err e, st2)
         \<longrightarrow> Install P s c st = (Err e, st2))
   \<and> (\<forall>e st'.
         CheckGo P s st = (Err e, st')
         \<longrightarrow> Install P s c st = (Err e, st')
             \<and> calls st' = calls st @
                 (if SshClient st
                  then [Exec (ParseCommand [StringField GoExecPath, Text '' version''] s)]
                  else []))"
proof (intro conjI allI impI)
  show "Install P s c st = failFast (installSteps P s c) st"
    by (rule Install_failFast)
next
  fix k st1 e st2
  assume "k < length (installSteps P s c)
          \<and> failFast (take k (installSteps P s c)) st = (OK, st1)
          \<and> (installSteps P s c ! k) st1 = (Err e, st2)"
  then show "Install P s c st = (Err e, st2)"
    by (auto simp add: Install_failFast intro: failFast_nth)
next
  fix e st'
  assume go: "CheckGo P s st = (Err e, st')"
  then show "Install P s c st = (Err e, st')"
    by (simp add: Install_def)
  have "calls (snd (CheckGo P s st)) = calls st @
          (if SshClient st
           then [Exec (ParseCommand [StringField GoExecPath, Text '' version''] s)]
           else [])"
    unfolding CheckGo_def by (rule PrintExec_calls)
  with go show "calls st' = calls st @
          (if SshClient st
           then [Exec (ParseCommand [StringField GoExecPath, Text '' version''] s)]
           else [])"
    by simp
qed

theorem Install_stops_at_first_error_witness:
  "fst (Install (scriptPlatform lingerScript (\<lambda>p. None)) demoService False (connected ())) =
     Err (notLingering demoService)
   \<and> calls (snd (Install (scriptPlatform lingerScript (\<lambda>p. None)) demoService False (connected ()))) =
     [Exec ''/usr/local/go/bin/go version'', Exec ''systemd --version'',
      Exec ''ls /var/lib/systemd/linger'']
   \<and> fst (Install (scriptPlatform shellScript (\<lambda>p. None)) demoService False (connected ())) =
     Err (Error ''Process exited with status 127'')
   \<and> calls (snd (Install (scriptPlatform shellScript (\<lambda>p. None)) demoService False (connected ()))) =
     [Exec ''/usr/local/go/bin/go version'']"
proof -
  let ?P = "scriptPlatform lingerScript (\<lambda>p. None)"
  let ?Q = "scriptPlatform shellScript (\<lambda>p. None)"
  let ?steps = "installSteps ?P demoService False"
  define st1 where "st1 = snd (failFast (take 2 ?steps) (connected ()))"
  define st2 where "st2 = snd ((?steps ! 2) st1)"
  define st' where "st' = snd (CheckGo ?Q demoService (connected ()))"
  have "fst (failFast (take 2 ?steps) (connected ())) = OK"
    by code_simp
  then have a: "failFast (take 2 ?steps) (connected ()) = (OK, st1)"
    by (simp add: st1_def prod_eq_iff)
  have "fst ((?steps ! 2) st1) = Err (notLingering demoService)"
    unfolding st1_def by code_simp
  then have b: "(?steps ! 2) st1 = (Err (notLingering demoService), st2)"
    by (simp add: st2_def prod_eq_iff)
  have k: "2 < length ?steps"
    by (simp add: installSteps_def)
  have c: "Install ?P demoService False (connected ()) = (Err (notLingering demoService), st2)"
    using Install_stops_at_first_error [of ?P demoService False "connected ()"] k a b by blast
  have d: "calls st2 = [Exec ''/usr/local/go/bin/go version'', Exec ''systemd --version'',
      Exec ''ls /var/lib/systemd/linger'']"
    unfolding st2_def st1_def by code_simp
  have "fst (CheckGo ?Q demoService (connected ())) = Err (Error ''Process exited with status 127'')"
    by code_simp
  then have e: "CheckGo ?Q demoService (connected ()) = (Err (Error ''Process exited with status 127''), st')"
    by (simp add: st'_def prod_eq_iff)
  have f: "Install ?Q demoService False (connected ()) = (Err (Error ''Process exited with status 127''), st')
     \<and> calls st' = calls (connected ()) @
                 (if SshClient (connected ())
                  then [Exec (ParseCommand [StringField GoExecPath, Text '' version''] demoService)]
                  else [])"
    using Install_stops_at_first_error [of ?Q demoService False "connected ()"] e by blast
  have g: "ParseCommand [StringField GoExecPath, Text '' version''] demoService = ''/usr/local/go/bin/go version''"
    by code_simp
  show ?thesis
    using c d f g by (simp add: connected_def)
qed

subsection \<open>The uninstall pipeline\<close>

lemma runAll_calls:
  "SshClient st \<Longrightarrow>
   calls (runAll (uninstallSteps P s) st) = calls st @
     [Exec (''systemctl --user stop '' @ Name s), Exec (''systemctl --user disable '' @ Name s),
      Exec (''rm '' @ unitFileName s), Exec ''systemctl --user daemon-reload'',
      Exec ''systemctl --user reset-failed'',
      Exec (ParseCommand [Text ''rm '', StringField ExecStart] s)]"
  by (simp add: uninstallSteps_def StopService_def DisableService_def DeleteServiceFile_def
      ReloadDaemon_def ResetFailedServices_def DeleteExecutable_def PrintExec_calls PrintExec_ssh)

text \<open>
  C2.  \<open>Uninstall\<close> runs stop, disable, removal of the unit file, reload, reset of the
  failed units and removal of the executable in this order, each whatever the ones
  before returned, and then the deletion of the files on the state they left: on a
  connected client the six commands are all sent, in this order.
\<close>

theorem Uninstall_runs_every_step:
  "Uninstall P s rm st =
     (case DeleteFiles P s rm (runAll (uninstallSteps P s) st) of
        (Panic m, st') \<Rightarrow> (Panic m, st')
      | (r, st') \<Rightarrow> (OK, st'))
   \<and> (SshClient st \<longrightarrow>
        calls (runAll (uninstallSteps P s) st) = calls st @
          [Exec (''systemctl --user stop '' @ Name s), Exec (''systemctl --user disable '' @ Name s),
           Exec (''rm '' @ unitFileName s), Exec ''systemctl --user daemon-reload'',
           Exec ''systemctl --user reset-failed'',
           Exec (ParseCommand [Text ''rm '', StringField ExecStart] s)])"
  by (simp add: runAll_calls) (simp add: Uninstall_def uninstallSteps_def Let_def)


theorem Uninstall_runs_every_step_witness:
  "fst (StopService (scriptPlatform shellScript localTree) mirrorService (connected ())) =
     Err (Error ''Process exited with status 127'')
   \<and> calls (snd (Uninstall (scriptPlatform shellScript localTree) mirrorService False (connected ()))) =
     [Exec ''systemctl --user stop srv'', Exec ''systemctl --user disable srv'',
      Exec ''rm /home/u/.config/systemd/user/srv.service'', Exec ''systemctl --user daemon-reload'',
      Exec ''systemctl --user reset-failed'', Exec ''rm /home/u/go/bin/srv'',
      NewSftp, Remove ''/home/u/a/b/z'', RemoveDirectory ''/home/u/a/b/c'',
      RemoveDirectory ''/home/u/a/b'', RemoveDirectory ''/home/u/a'']"
proof -
  let ?Q = "scriptPlatform shellScript localTree"
  have a: "fst (StopService ?Q mirrorService (connected ())) =
     Err (Error ''Process exited with status 127'')"
    by code_simp
  have "SshClient (connected ())"
    by (simp add: connected_def)
  then have b: "calls (runAll (uninstallSteps ?Q mirrorService) (connected ())) =
     calls (connected ()) @
          [Exec (''systemctl --user stop '' @ Name mirrorService),
           Exec (''systemctl --user disable '' @ Name mirrorService),
           Exec (''rm '' @ unitFileName mirrorService), Exec ''systemctl --user daemon-reload'',
           Exec ''systemctl --user reset-failed'',
           Exec (ParseCommand [Text ''rm '', StringField ExecStart] mirrorService)]"
    using Uninstall_runs_every_step [of ?Q mirrorService False "connected ()"] by blast
  have c: "calls (snd (DeleteFiles ?Q mirrorService False
             (runAll (uninstallSteps ?Q mirrorService) (connected ())))) =
     [Exec ''systemctl --user stop srv'', Exec ''systemctl --user disable srv'',
      Exec ''rm /home/u/.config/systemd/user/srv.service'', Exec ''systemctl --user daemon-reload'',
      Exec ''systemctl --user reset-failed'', Exec ''rm /home/u/go/bin/srv'',
      NewSftp, Remove ''/home/u/a/b/z'', RemoveDirectory ''/home/u/a/b/c'',
      RemoveDirectory ''/home/u/a/b'', RemoveDirectory ''/home/u/a'']"
    by code_simp
  have d: "snd (Uninstall ?Q mirrorService False (connected ())) =
     snd (DeleteFiles ?Q mirrorService False (runAll (uninstallSteps ?Q mirrorService) (connected ())))"
    using Uninstall_runs_every_step [of ?Q mirrorService False "connected ()"]
    by (simp split: prod.splits status.splits)
  show ?thesis
    using a b c d by simp
qed

subsection \<open>The lines of the unit file\<close>






















subsection \<open>The overlay of the environment\<close>

lemma runeLen_ascii: "(of_char c :: nat) < 128 \<Longrightarrow> runeLen (c # cs) = 1"
  by (simp add: Let_def)

lemma mapTrim_ascii:
  "\<forall>ch\<in>set t. (of_char ch :: nat) < 128 \<Longrightarrow>
   mapTrim 0 t = map (\<lambda>ch. if alnum ch then ch else CHR ''_'') t"
  by (induction t) (simp_all add: runeLen_ascii del: runeLen.simps)

lemma serviceNameToEnvName_ascii:
  assumes "\<forall>ch\<in>set name. (of_char ch :: nat) < 128"
  shows "serviceNameToEnvName name =
           (case map (\<lambda>ch. upperChar (if alnum ch then ch else CHR ''_'')) name of
              [] \<Rightarrow> []
            | c # cs \<Rightarrow> if digit c then ''_'' @ c # cs else c # cs)"
  using assms by (cases name) (simp_all add: serviceNameToEnvName_def ToUpper_def mapTrim_ascii del: mapTrim.simps)

text \<open>
  C9, as amended.  For a service of the configuration, the variable named by the
  mapped service name, an underscore and the upper-cased key of a field overrides the
  value of the file when it is not empty, for every field of type \<open>string\<close>, and for
  the fields of type \<open>int\<close> when \<open>Atoi\<close> accepts it; otherwise the value of the file
  stays.  For a service name of ASCII the mapped name is the name with every byte
  that is no letter and no digit replaced by an underscore, upper-cased, behind an
  underscore when it starts with a digit.
\<close>

theorem loadConfFromEnv_overlay:
  assumes "cf name = Some c"
  shows "loadConfFromEnv env cf name = Some (loadFields env name c)
    \<and> (\<forall>(tag, field) \<in> set stringFields.
          field (loadFields env name c) =
            (if env (envKey name tag) \<noteq> [] then env (envKey name tag) else field c))
    \<and> (\<forall>(tag, field) \<in> set intFields.
          field (loadFields env name c) =
            (if env (envKey name tag) \<noteq> []
             then (case Atoi (env (envKey name tag)) of Some i \<Rightarrow> i | None \<Rightarrow> field c)
             else field c))
    \<and> envKey name tag = serviceNameToEnvName name @ ''_'' @ ToUpper tag
    \<and> ((\<forall>ch\<in>set name. (of_char ch :: nat) < 128) \<longrightarrow>
         serviceNameToEnvName name =
           (case map (\<lambda>ch. upperChar (if alnum ch then ch else CHR ''_'')) name of
              [] \<Rightarrow> []
            | c # cs \<Rightarrow> if digit c then ''_'' @ c # cs else c # cs))"
proof (intro conjI)
  show "loadConfFromEnv env cf name = Some (loadFields env name c)"
    using assms by (simp add: loadConfFromEnv_def)
  show "\<forall>(tag, field) \<in> set stringFields.
          field (loadFields env name c) =
            (if env (envKey name tag) \<noteq> [] then env (envKey name tag) else field c)"
    by (simp add: stringFields_def loadFields_def envString_def)
  show "\<forall>(tag, field) \<in> set intFields.
          field (loadFields env name c) =
            (if env (envKey name tag) \<noteq> []
             then (case Atoi (env (envKey name tag)) of Some i \<Rightarrow> i | None \<Rightarrow> field c)
             else field c)"
    by (simp add: intFields_def loadFields_def envInt_def)
  show "envKey name tag = serviceNameToEnvName name @ ''_'' @ ToUpper tag"
    by (simp add: envKey_def)
  show "(\<forall>ch\<in>set name. (of_char ch :: nat) < 128) \<longrightarrow>
         serviceNameToEnvName name =
           (case map (\<lambda>ch. upperChar (if alnum ch then ch else CHR ''_'')) name of
              [] \<Rightarrow> []
            | c # cs \<Rightarrow> if digit c then ''_'' @ c # cs else c # cs)"
    using serviceNameToEnvName_ascii by blast
qed

theorem loadConfFromEnv_overlay_witness:
  "envKey ''foo'' ''host'' = ''FOO_HOST''
   \<and> map_option Host (loadConfFromEnv hostEnv [''foo'' \<mapsto> demoConf] ''foo'') = Some ''1.2.3.4''
   \<and> map_option RestartSec (loadConfFromEnv hostEnv [''foo'' \<mapsto> demoConf] ''foo'') = Some 7
   \<and> map_option User (loadConfFromEnv hostEnv [''foo'' \<mapsto> demoConf] ''foo'') = Some ''u''
   \<and> serviceNameToEnvName ''foo'' = ''FOO''"
proof -
  have c: "[''foo'' \<mapsto> demoConf] ''foo'' = Some demoConf"
    by simp
  have ascii: "\<forall>ch\<in>set ''foo''. (of_char ch :: nat) < 128"
    by simp
  note t = loadConfFromEnv_overlay [of "[''foo'' \<mapsto> demoConf]" "''foo''" demoConf hostEnv "''host''", OF c]
  have k: "envKey ''foo'' ''host'' = ''FOO_HOST''" "envKey ''foo'' ''restart_sec'' = ''FOO_RESTART_SEC''"
    "envKey ''foo'' ''user'' = ''FOO_USER''"
    by code_simp+
  have m: "(''host'', Host) \<in> set stringFields" "(''user'', User) \<in> set stringFields"
    "(''restart_sec'', RestartSec) \<in> set intFields"
    by (simp_all add: stringFields_def intFields_def)
  have a: "Atoi ''7'' = Some 7"
    by code_simp
  have sf: "\<forall>(tag, field) \<in> set stringFields.
          field (loadFields hostEnv ''foo'' demoConf) =
            (if hostEnv (envKey ''foo'' tag) \<noteq> [] then hostEnv (envKey ''foo'' tag)
             else field demoConf)"
    using t by blast
  have nf: "\<forall>(tag, field) \<in> set intFields.
          field (loadFields hostEnv ''foo'' demoConf) =
            (if hostEnv (envKey ''foo'' tag) \<noteq> []
             then (case Atoi (hostEnv (envKey ''foo'' tag)) of Some i \<Rightarrow> i | None \<Rightarrow> field demoConf)
             else field demoConf)"
    using t by blast
  have h: "Host (loadFields hostEnv ''foo'' demoConf) =
             (if hostEnv (envKey ''foo'' ''host'') \<noteq> [] then hostEnv (envKey ''foo'' ''host'')
              else Host demoConf)"
    using sf m(1) by fast
  have u: "User (loadFields hostEnv ''foo'' demoConf) =
             (if hostEnv (envKey ''foo'' ''user'') \<noteq> [] then hostEnv (envKey ''foo'' ''user'')
              else User demoConf)"
    using sf m(2) by fast
  have n: "RestartSec (loadFields hostEnv ''foo'' demoConf) =
             (if hostEnv (envKey ''foo'' ''restart_sec'') \<noteq> []
              then (case Atoi (hostEnv (envKey ''foo'' ''restart_sec'')) of
                      Some i \<Rightarrow> i | None \<Rightarrow> RestartSec demoConf)
              else RestartSec demoConf)"
    using nf m(3) by fast
  have "Host (loadFields hostEnv ''foo'' demoConf) = ''1.2.3.4''"
    "User (loadFields hostEnv ''foo'' demoConf) = ''u''"
    "RestartSec (loadFields hostEnv ''foo'' demoConf) = 7"
    using h u n a by (simp_all add: k hostEnv_def demoConf_def)
  moreover have "loadConfFromEnv hostEnv [''foo'' \<mapsto> demoConf] ''foo'' =
                   Some (loadFields hostEnv ''foo'' demoConf)"
    using t by blast
  moreover have "serviceNameToEnvName ''foo'' = ''FOO''"
  proof -
    have "serviceNameToEnvName ''foo'' =
           (case map (\<lambda>ch. upperChar (if alnum ch then ch else CHR ''_'')) ''foo'' of
              [] \<Rightarrow> []
            | c # cs \<Rightarrow> if digit c then ''_'' @ c # cs else c # cs)"
      using t ascii by blast
    also have "\<dots> = ''FOO''"
      by code_simp
    finally show ?thesis .
  qed
  ultimately show ?thesis
    using k by simp
qed

text \<open>
  The claim as it stands fails: a variable that is not a number leaves an integer
  field as the file gave it, and the variable of the field \<open>ignore\<close> is not read into it.
\<close>

theorem env_value_not_taken:
  "envKey ''foo'' ''restart_sec'' = ''FOO_RESTART_SEC''
   \<and> oddEnv ''FOO_RESTART_SEC'' = ''soon''
   \<and> map_option RestartSec
        (loadConfFromEnv oddEnv [''foo'' \<mapsto> demoConf\<lparr>RestartSec := 5\<rparr>] ''foo'') = Some 5
   \<and> envKey ''foo'' ''ignore'' = ''FOO_IGNORE''
   \<and> oddEnv ''FOO_IGNORE'' = ''true''
   \<and> map_option Ignore
        (loadConfFromEnv oddEnv [''foo'' \<mapsto> demoConf\<lparr>RestartSec := 5\<rparr>] ''foo'') = Some False"
proof -
  have k: "envKey ''foo'' ''restart_sec'' = ''FOO_RESTART_SEC''" "envKey ''foo'' ''ignore'' = ''FOO_IGNORE''"
    by code_simp+
  have e: "oddEnv ''FOO_RESTART_SEC'' = ''soon''" "oddEnv ''FOO_IGNORE'' = ''true''"
    by (simp_all add: oddEnv_def)
  have a: "Atoi ''soon'' = None"
    by code_simp
  have "RestartSec (loadFields oddEnv ''foo'' (demoConf\<lparr>RestartSec := 5\<rparr>)) = 5"
    by (simp add: loadFields_def envInt_def k e a)
  moreover have "Ignore (loadFields oddEnv ''foo'' (demoConf\<lparr>RestartSec := 5\<rparr>)) = False"
    by (simp add: loadFields_def demoConf_def)
  ultimately show ?thesis
    using k e by (simp add: loadConfFromEnv_def)
qed

subsection \<open>The default of the start command\<close>

lemma HasPrefix_at: "HasPrefix d ''@'' \<Longrightarrow> CHR ''@'' \<in> set d"
  by (cases d) (auto simp: HasPrefix_def)

lemma word_run:
  assumes "\<forall>ch\<in>set seg. isWord ch"
  shows "takeWhile isWord (seg @ CHR ''@'' # ver) = seg"
    and "dropWhile isWord (seg @ CHR ''@'' # ver) = CHR ''@'' # ver"
proof -
  have "\<not> isWord CHR ''@''" by (simp add: isWord_def)
  then show "takeWhile isWord (seg @ CHR ''@'' # ver) = seg"
    and "dropWhile isWord (seg @ CHR ''@'' # ver) = CHR ''@'' # ver"
    using assms by (simp_all add: takeWhile_append2 dropWhile_append2)
qed

lemma matchHere_run:
  assumes "seg \<noteq> []" "\<forall>ch\<in>set seg. isWord ch"
  shows "matchHere (seg @ CHR ''@'' # ver) = Some seg"
    and "matchHere (CHR ''/'' # seg @ CHR ''@'' # ver) = Some seg"
proof -
  obtain c cs where seg: "seg = c # cs" using assms(1) by (cases seg) auto
  have "isWord c" using assms(2) seg by simp
  then have c: "c \<noteq> CHR ''/''" by (auto simp: isWord_def)
  have "matchHere (c # cs @ CHR ''@'' # ver) = Some (c # cs)"
    using word_run [OF assms(2), of ver] assms(1) c seg
    by (simp add: matchHere_def HasPrefix_def)
  then show "matchHere (seg @ CHR ''@'' # ver) = Some seg" using seg by simp
  show "matchHere (CHR ''/'' # seg @ CHR ''@'' # ver) = Some seg"
    using word_run [OF assms(2), of ver] assms(1)
    by (simp add: matchHere_def HasPrefix_def)
qed

lemma no_match_inside:
  assumes "xs \<noteq> []" "\<not> isWord (last xs)" "CHR ''@'' \<notin> set xs"
  shows "\<not> HasPrefix (dropWhile isWord (xs @ rest)) ''@''"
proof -
  have x: "last xs \<in> set xs" using assms(1) by simp
  have d: "dropWhile isWord (xs @ rest) = dropWhile isWord xs @ rest"
    using x assms(2) by (rule dropWhile_append1)
  have ne: "dropWhile isWord xs \<noteq> []"
    using x assms(2) by (auto simp: dropWhile_eq_Nil_conv)
  then have "hd (dropWhile isWord xs) \<in> set xs"
    by (meson hd_in_set set_dropWhileD)
  then have "hd (dropWhile isWord xs) \<noteq> CHR ''@''" using assms(3) by auto
  then show ?thesis using ne d
    by (cases "dropWhile isWord xs") (auto simp: HasPrefix_def)
qed

lemma findMatch_run:
  assumes "seg \<noteq> []" "\<forall>ch\<in>set seg. isWord ch"
  shows "CHR ''@'' \<notin> set pre \<Longrightarrow> pre = [] \<or> \<not> isWord (last pre) \<Longrightarrow>
         findMatch (pre @ seg @ CHR ''@'' # ver) = Some seg"
proof (induction pre)
  case Nil
  obtain c cs where seg: "seg = c # cs" using assms(1) by (cases seg) auto
  have "matchHere (seg @ CHR ''@'' # ver) = Some seg" using assms by (rule matchHere_run)
  then show ?case using seg by simp
next
  case (Cons p ps)
  let ?rest = "seg @ CHR ''@'' # ver"
  have tail: "findMatch (ps @ ?rest) = Some seg"
    using Cons by (cases "ps = []") auto
  have here: "matchHere (p # ps @ ?rest) = None \<or> matchHere (p # ps @ ?rest) = Some seg"
  proof (cases "p = CHR ''/''")
    case True
    show ?thesis
    proof (cases "ps = []")
      case True
      with \<open>p = CHR ''/''\<close> matchHere_run(2) [OF assms, of ver] show ?thesis
        by simp
    next
      case False
      then have "\<not> HasPrefix (dropWhile isWord (ps @ ?rest)) ''@''"
        using Cons.prems by (intro no_match_inside) auto
      with \<open>p = CHR ''/''\<close> show ?thesis by (simp add: matchHere_def)
    qed
  next
    case False
    have "\<not> HasPrefix (dropWhile isWord ((p # ps) @ ?rest)) ''@''"
      using Cons.prems by (intro no_match_inside) auto
    with False show ?thesis by (simp add: matchHere_def)
  qed
  then show ?case using tail by auto
qed

lemma matchHere_no_at: "CHR ''@'' \<notin> set t \<Longrightarrow> matchHere t = None"
proof -
  assume a: "CHR ''@'' \<notin> set t"
  define r where "r = (case t of [] \<Rightarrow> [] | c # cs \<Rightarrow> if c = CHR ''/'' then cs else c # cs)"
  have "set r \<subseteq> set t" by (auto simp: r_def split: list.splits)
  then have "CHR ''@'' \<notin> set (dropWhile isWord r)"
    using a by (meson set_dropWhileD subsetD)
  then have "\<not> HasPrefix (dropWhile isWord r) ''@''"
    using HasPrefix_at by blast
  then show ?thesis by (simp add: matchHere_def r_def)
qed

lemma findMatch_no_at: "CHR ''@'' \<notin> set t \<Longrightarrow> findMatch t = None"
  by (induction t) (simp_all add: matchHere_no_at)

lemma serviceDefaults_ExecStart:
  assumes "ExecStart c = []"
  shows "ExecStart (serviceDefaults pwd goBin goExec c) =
           (if getExec (GoInstall c) = [] then [] else Join [goBin, getExec (GoInstall c)])"
    and "GoBinDirectory (serviceDefaults pwd goBin goExec c) = goBin"
  using assms by (simp_all add: serviceDefaults_def defaultExecStart_def Let_def)

lemma resolveService_ExecStart:
  assumes "resolveService P r name c st = (Inr s, r', st')" "ExecStart c = []"
  shows "ExecStart (Conf s) =
           (if getExec (GoInstall c) = [] then []
            else Join [GoBinDirectory (Conf s), getExec (GoInstall c)])"
proof -
  from assms(1) obtain pwd goBin goExec where "Conf s = serviceDefaults pwd goBin goExec c"
    by (auto simp add: resolveService_def split: prod.splits option.splits if_splits)
  then show ?thesis
    using serviceDefaults_ExecStart [OF assms(2), of pwd goBin goExec] by simp
qed

lemma connectionDefaults_keeps:
  "ExecStart (connectionDefaults P c) = ExecStart c"
  "GoInstall (connectionDefaults P c) = GoInstall c"
  by (simp_all add: connectionDefaults_def Let_def split: option.splits)

lemma MakeService_ExecStart:
  assumes "MakeService P r name st = (Inr s, r', st')" "services r name = None"
    "conf r name = Some c" "ExecStart c = []"
  shows "ExecStart (Conf s) =
           (if getExec (GoInstall c) = [] then []
            else Join [GoBinDirectory (Conf s), getExec (GoInstall c)])"
proof -
  from assms(1-3) obtain st1 where
    "resolveService P r name (connectionDefaults P c) st1 = (Inr s, r', st')"
    by (auto simp add: MakeService_def split: option.splits prod.splits)
  then show ?thesis
    using resolveService_ExecStart [of P r name "connectionDefaults P c" st1 s r' st'] assms(4)
    by (simp add: connectionDefaults_keeps)
qed

text \<open>
  C10, as amended.  When \<open>exec_start\<close> is not configured and the service is made, the
  start command is the Go binary directory joined with the name \<open>getExec\<close> takes
  from \<open>go_install\<close>, and stays empty when \<open>getExec\<close> gives no name.  The name is
  the run of letters, digits, \<open>_\<close> and \<open>-\<close> that ends at the first \<open>@\<close> and cannot be
  extended to the left; there is none when \<open>go_install\<close> holds no \<open>@\<close>.
\<close>

theorem MakeService_default_ExecStart:
  "(\<forall>s r' st' c.
      MakeService P r name st = (Inr s, r', st') \<and> services r name = None
      \<and> conf r name = Some c \<and> ExecStart c = []
      \<longrightarrow> ExecStart (Conf s) =
            (if getExec (GoInstall c) = [] then []
             else Join [GoBinDirectory (Conf s), getExec (GoInstall c)]))
   \<and> (\<forall>pre seg ver.
        seg \<noteq> [] \<and> (\<forall>ch\<in>set seg. isWord ch) \<and> CHR ''@'' \<notin> set pre
        \<and> (pre = [] \<or> \<not> isWord (last pre))
        \<longrightarrow> getExec (pre @ seg @ ''@'' @ ver) = seg)
   \<and> (\<forall>g. CHR ''@'' \<notin> set g \<longrightarrow> getExec g = [])"
proof (intro conjI allI impI)
  fix s r' st' c
  assume "MakeService P r name st = (Inr s, r', st') \<and> services r name = None
      \<and> conf r name = Some c \<and> ExecStart c = []"
  then show "ExecStart (Conf s) =
            (if getExec (GoInstall c) = [] then []
             else Join [GoBinDirectory (Conf s), getExec (GoInstall c)])"
    using MakeService_ExecStart by blast
next
  fix pre seg ver
  assume "seg \<noteq> [] \<and> (\<forall>ch\<in>set seg. isWord ch) \<and> CHR ''@'' \<notin> set pre
        \<and> (pre = [] \<or> \<not> isWord (last pre))"
  then have "findMatch (pre @ seg @ CHR ''@'' # ver) = Some seg"
    using findMatch_run by blast
  then show "getExec (pre @ seg @ ''@'' @ ver) = seg"
    by (simp add: getExec_def)
next
  fix g
  assume "CHR ''@'' \<notin> set g"
  then show "getExec g = []"
    by (simp add: getExec_def findMatch_no_at)
qed

theorem MakeService_default_ExecStart_witness:
  "map_sum id (\<lambda>s. ExecStart (Conf s))
     (fst (MakeService (scriptPlatform hostScript (\<lambda>p. None)) (demoRunner rawConf) ''srv'' (connected ())))
     = Inr ''/home/u/go/bin/srv''
   \<and> getExec (''github.com/pioz/'' @ ''srv'' @ ''@'' @ ''latest'') = ''srv''
   \<and> getExec ''github.com/pioz/srv'' = []"
proof -
  let ?P = "scriptPlatform hostScript (\<lambda>p. None)"
  let ?M = "MakeService ?P (demoRunner rawConf) ''srv'' (connected ())"
  note t = MakeService_default_ExecStart [of ?P "demoRunner rawConf" "''srv''" "connected ()"]
  have bin: "map_sum id (\<lambda>s. GoBinDirectory (Conf s)) (fst ?M) = Inr ''/home/u/go/bin''"
    by code_simp
  then obtain s where s: "fst ?M = Inr s"
    by (cases "fst ?M") auto
  then have m: "?M = (Inr s, fst (snd ?M), snd (snd ?M))"
    by (simp add: prod_eq_iff)
  have pre: "services (demoRunner rawConf) ''srv'' = None"
    "conf (demoRunner rawConf) ''srv'' = Some rawConf" "ExecStart rawConf = []"
    by (simp_all add: demoRunner_def rawConf_def)
  have e: "ExecStart (Conf s) =
            (if getExec (GoInstall rawConf) = [] then []
             else Join [GoBinDirectory (Conf s), getExec (GoInstall rawConf)])"
    using t m pre by blast
  have b: "GoBinDirectory (Conf s) = ''/home/u/go/bin''"
    using bin s by simp
  have g: "getExec (GoInstall rawConf) = ''srv''"
    by code_simp
  have j: "Join [''/home/u/go/bin'', ''srv''] = ''/home/u/go/bin/srv''"
    by code_simp
  have w: "\<forall>ch\<in>set ''srv''. isWord ch" "\<not> isWord (last ''github.com/pioz/'')"
    by (simp_all add: isWord_def)
  have "getExec (''github.com/pioz/'' @ ''srv'' @ ''@'' @ ''latest'') = ''srv''"
    using t w by (simp del: append.simps)
  moreover have "getExec ''github.com/pioz/srv'' = []"
    using t by simp
  ultimately show ?thesis
    using s e b g j by simp
qed

text \<open>
  The claim as it stands fails for a last path segment that holds another character:
  of \<open>my.app\<close> only \<open>app\<close> is taken.
\<close>

theorem getExec_dotted_segment:
  "getExec ''example.com/tools/my.app@latest'' = ''app''
   \<and> map_sum id (\<lambda>s. ExecStart (Conf s))
        (fst (MakeService (scriptPlatform hostScript (\<lambda>p. None))
                (demoRunner (rawConf\<lparr>GoInstall := ''example.com/tools/my.app@latest''\<rparr>)) ''srv''
                (connected ())))
     = Inr ''/home/u/go/bin/app''"
  by code_simp

subsection \<open>The credentials of a private repository\<close>

lemma Service_Exec_calls:
  "calls (snd (Service_Exec P cmd st)) = calls st @ (if SshClient st then [Exec cmd] else [])"
  "SshClient (snd (Service_Exec P cmd st)) = SshClient st"
  by (simp_all add: Service_Exec_def Client_Exec_def split: prod.splits option.splits ran.splits)

lemma SendMessage_keeps:
  "calls (SendMessage n t k st) = calls st" "SshClient (SendMessage n t k st) = SshClient st"
  "world (SendMessage n t k st) = world st"
  by (simp_all add: SendMessage_def)

text \<open>
  C8, as amended.  With \<open>go_private\<close> configured, on a connected client, the step reads
  the credential file with \<open>cat\<close>.  When the text read does not contain the triple, the
  step sends one more command, which rewrites the file with the triple first and,
  when the file could be read, the text read after it; when the text read contains
  the triple, no other command is sent and the step returns \<open>nil\<close>.
\<close>

theorem AuthPrivateRepo_credentials:
  assumes "GoPrivate (Conf s) \<noteq> []" and "SshClient st"
    and "Service_Exec P ''cat ~/.netrc''
           (SendMessage (Name s) ''GO_PRIVATE found: edit .netrc file'' MessageNormal st) =
         ((out, err), st1)"
  shows "calls (snd (AuthPrivateRepo P s st)) =
           calls st @ Exec ''cat ~/.netrc'' #
             (if Contains out (netrcAuth s) then []
              else [Exec (''echo ''
                          @ quoted (netrcAuth s @ (if err = None then ''\<newline>'' @ out else []))
                          @ '' > ~/.netrc'')])
         \<and> (Contains out (netrcAuth s) \<longrightarrow>
              AuthPrivateRepo P s st = (OK, SendMessage (Name s) [] MessageSuccess st1))"
proof -
  have c1: "calls st1 = calls st @ [Exec ''cat ~/.netrc'']" and s1: "SshClient st1"
    using Service_Exec_calls [of P "''cat ~/.netrc''"
        "SendMessage (Name s) ''GO_PRIVATE found: edit .netrc file'' MessageNormal st"]
      assms(2,3)
    by (simp_all add: SendMessage_keeps)
  show ?thesis
  proof (cases "Contains out (netrcAuth s)")
    case True
    then show ?thesis using assms(1,3) c1
      by (simp add: AuthPrivateRepo_def SendMessage_keeps)
  next
    case False
    let ?cmd = "''echo '' @ quoted (netrcAuth s @ (if err = None then ''\<newline>'' @ out else [])) @ '' > ~/.netrc''"
    have "calls (snd (Service_Exec P ?cmd st1)) = calls st @ [Exec ''cat ~/.netrc'', Exec ?cmd]"
      using Service_Exec_calls(1) [of P ?cmd st1] c1 s1 by simp
    then show ?thesis using assms(1,3) False
      by (auto simp add: AuthPrivateRepo_def SendMessage_keeps Let_def
          split: prod.splits option.splits)
  qed
qed

theorem AuthPrivateRepo_credentials_witness:
  "AuthPrivateRepo netrcPlatform privateService (connected (Some listedNetrc)) =
     (OK, SendMessage ''srv'' [] MessageSuccess
            (snd (Service_Exec netrcPlatform ''cat ~/.netrc''
                    (SendMessage ''srv'' ''GO_PRIVATE found: edit .netrc file'' MessageNormal
                       (connected (Some listedNetrc))))))
   \<and> calls (snd (AuthPrivateRepo netrcPlatform privateService (connected (Some listedNetrc)))) =
       [Exec ''cat ~/.netrc'']
   \<and> world (snd (AuthPrivateRepo netrcPlatform privateService (connected (Some listedNetrc)))) =
       Some listedNetrc
   \<and> calls (snd (AuthPrivateRepo netrcPlatform privateService (connected (Some otherNetrc)))) =
       [Exec ''cat ~/.netrc'',
        Exec (''echo '' @ quoted (''machine github.com login bob password s3cret\<newline>machine gitlab.com login al password x'') @ '' > ~/.netrc'')]"
proof -
  let ?cat = "\<lambda>w. Service_Exec netrcPlatform ''cat ~/.netrc''
                 (SendMessage (Name privateService) ''GO_PRIVATE found: edit .netrc file''
                    MessageNormal (connected w))"
  have g: "GoPrivate (Conf privateService) \<noteq> []" and n: "Name privateService = ''srv''"
    by (simp_all add: privateService_def demoService_def)
  have c: "SshClient (connected w)" "calls (connected w) = []" for w :: "string option"
    by (simp_all add: connected_def)
  have a: "netrcAuth privateService = ''machine github.com login bob password s3cret''"
    by code_simp
  have o1: "fst (?cat (Some listedNetrc)) =
              (''machine github.com login bob password s3cret\<newline>machine gitlab.com login al password x'', None)"
    by code_simp
  have o2: "fst (?cat (Some otherNetrc)) = (''machine gitlab.com login al password x'', None)"
    by code_simp
  have w1: "world (snd (?cat (Some listedNetrc))) = Some listedNetrc"
    by code_simp
  have in1: "Contains ''machine github.com login bob password s3cret\<newline>machine gitlab.com login al password x''
               ''machine github.com login bob password s3cret''"
    by code_simp
  have in2: "\<not> Contains ''machine gitlab.com login al password x''
               ''machine github.com login bob password s3cret''"
    by code_simp
  have e1: "?cat (Some listedNetrc) =
              ((''machine github.com login bob password s3cret\<newline>machine gitlab.com login al password x'', None),
               snd (?cat (Some listedNetrc)))"
    using o1 by (simp add: prod_eq_iff)
  have e2: "?cat (Some otherNetrc) =
              ((''machine gitlab.com login al password x'', None), snd (?cat (Some otherNetrc)))"
    using o2 by (simp add: prod_eq_iff)
  note t1 = AuthPrivateRepo_credentials [OF g c(1) e1]
  note t2 = AuthPrivateRepo_credentials [OF g c(1) e2]
  show ?thesis
    using t1 t2 in1 in2 w1
    by (simp add: a c n SendMessage_keeps Service_Exec_calls del: Contains.simps)
qed

text \<open>
  The claim as it stands fails: the triple is not appended.  On a host whose file holds
  another entry the file afterwards starts with the triple, and the entry it held
  comes after it.
\<close>

theorem AuthPrivateRepo_puts_triple_first:
  "world (snd (AuthPrivateRepo netrcPlatform privateService (connected (Some otherNetrc)))) =
     Some (''machine github.com login bob password s3cret\<newline>'' @ otherNetrc)
   \<and> world (snd (AuthPrivateRepo netrcPlatform privateService (connected (Some otherNetrc)))) \<noteq>
     Some (otherNetrc @ ''machine github.com login bob password s3cret\<newline>'')"
  by code_simp

subsection \<open>Copy followed by delete\<close>

lemma absent_facts:
  assumes "lookupR fs p = None"
  shows "map_of fs p = None" "p \<notin> fst ` set fs" "p \<noteq> ''/''" "p \<noteq> ''.''"
  using assms by (auto simp add: lookupR_def map_of_eq_None_iff split: if_splits)

lemma lookupR_append:
  "lookupR (fs @ ys) p = (case lookupR fs p of Some n \<Rightarrow> Some n | None \<Rightarrow> map_of ys p)"
  by (auto simp add: lookupR_def map_add_def split: option.splits)

lemma parentOf_shorter: "parentOf p = Some q \<Longrightarrow> length q < length p"
  by (auto simp add: parentOf_def Split_def Let_def split: if_splits)

lemma parentOf_not_self: "parentOf p \<noteq> Some p"
  using parentOf_shorter by blast

text \<open>The bound of \<open>fsMkdirAll\<close> is never reached: any bound above the length of the path gives the same result.\<close>

lemma mkdirAllN_fuel:
  "length p < k \<Longrightarrow> length p < k' \<Longrightarrow> mkdirAllN k p fs = mkdirAllN k' p fs"
proof (induction k arbitrary: k' p fs)
  case 0
  then show ?case by simp
next
  case (Suc k)
  then obtain j where j: "k' = Suc j" by (cases k') auto
  show ?case
  proof (cases "parentOf p")
    case None
    then show ?thesis using j by (simp split: option.splits rnode.splits)
  next
    case (Some q)
    then have "length q < length p" by (rule parentOf_shorter)
    then have "mkdirAllN k q fs = mkdirAllN j q fs"
      using Suc.prems j by (intro Suc.IH) auto
    then show ?thesis using Some j by (simp split: option.splits rnode.splits)
  qed
qed

lemma hasParent_append: "hasParent fs p \<Longrightarrow> hasParent (fs @ ys) p"
  by (auto simp add: hasParent_def lookupR_append split: option.splits)

lemma fsDelete_absent: "p \<notin> fst ` set fs \<Longrightarrow> fsDelete p fs = fs"
  by (induction fs) (auto simp add: fsDelete_def)

lemma fsDelete_append: "fsDelete p (fs @ ys) = fsDelete p fs @ fsDelete p ys"
  by (simp add: fsDelete_def)

lemma fsDelete_Cons:
  "fsDelete p ((q, n) # ys) = (if q = p then fsDelete p ys else (q, n) # fsDelete p ys)"
  "fsDelete p [] = []"
  by (simp_all add: fsDelete_def)

lemma fsUpdate_append:
  "p \<notin> fst ` set fs \<Longrightarrow> fsUpdate p n (fs @ (p, m) # ys) = fs @ (p, n) # ys"
  by (induction fs) auto

lemma mkdirAll_fresh:
  assumes "lookupR fs p = None" "hasParent fs p"
  shows "fsMkdirAll p fs = (None, fs @ [(p, RDir)])"
proof (cases "parentOf p")
  case None
  then show ?thesis using assms by (simp add: fsMkdirAll_def fsMkdir_def)
next
  case (Some q)
  then have "length p \<noteq> 0" using parentOf_shorter by fastforce
  then obtain k where k: "length p = Suc k" by (cases "length p") auto
  have "lookupR fs q = Some RDir" using assms(2) Some by (simp add: hasParent_def)
  then have "mkdirAllN (Suc k) q fs = (None, fs)" by simp
  then show ?thesis using assms Some k by (simp add: fsMkdirAll_def fsMkdir_def)
qed

lemma create_fresh:
  assumes "lookupR fs p = None" "hasParent fs p"
  shows "fsCreate p fs = (None, fs @ [(p, RFile [])])"
    and "fsReadFrom p bytes (fs @ [(p, RFile [])]) = (None, fs @ [(p, RFile bytes)])"
  using assms absent_facts(1,2) [OF assms(1)] fsUpdate_append [of p fs "RFile bytes" "RFile []" "[]"]
  by (simp_all add: fsCreate_def fsReadFrom_def map_add_def)


lemma sftp_ops:
  "sftpMkdirAll (fsPlatform script local) = fsMkdirAll"
  "sftpCreate (fsPlatform script local) = fsCreate"
  "sftpReadFrom (fsPlatform script local) = fsReadFrom"
  "sftpRemove (fsPlatform script local) = fsRemove"
  "sftpRemoveDirectory (fsPlatform script local) = fsRemoveDirectory"
  "sftpNewClient (fsPlatform script local) = (\<lambda>w. (None, w))"
  "lstat (fsPlatform script local) = local"
  by (simp_all add: fsPlatform_def)

lemma copyFn_fresh:
  assumes "lookupR (world s) p = None" "hasParent (world s) p" "readable info"
  shows "copyFn (fsPlatform script local) path p info s =
           (OK, s\<lparr>world := world s @ [(p, nodeOf info)],
                  calls := calls s @ (case info of Dir n es \<Rightarrow> [MkdirAll p]
                                       | File n c \<Rightarrow> [Create p, ReadFrom p (case c of Inr b \<Rightarrow> b | Inl e \<Rightarrow> [])])\<rparr>)"
proof (cases info)
  case (Dir n es)
  then show ?thesis
    using mkdirAll_fresh [OF assms(1,2)]
    by (simp add: sftp_ops sftpStep_def sftpCall_def)
next
  case (File n c)
  then obtain b where c: "c = Inr b" using assms(3) by (cases c) auto
  show ?thesis
    using create_fresh(1) [OF assms(1,2)] create_fresh(2) [OF assms(1,2), of b] File c
    by (simp add: sftp_ops sftpStep_def sftpCall_def)
qed

lemma copy_walk:
  "freshFor (world s) (remoteVisits dstDir es dirs) \<Longrightarrow>
   walkLoop (copyFn (fsPlatform script local)) dstDir es dirs s =
     (OK, s\<lparr>world := world s @ map (\<lambda>(p, info). (p, nodeOf info)) (remoteVisits dstDir es dirs),
            calls := calls s @ copyCalls (remoteVisits dstDir es dirs)\<rparr>)"
proof (induction es arbitrary: dirs s)
  case Nil
  then show ?case by simp
next
  case (Cons e es)
  obtain path info where e: "e = (path, info)" by (cases e)
  obtain p dirs' where v: "visit dstDir dirs path (IsDir info) = (p, dirs')"
    by (cases "visit dstDir dirs path (IsDir info)")
  let ?s' = "s\<lparr>world := world s @ [(p, nodeOf info)],
                  calls := calls s @ (case info of Dir n es \<Rightarrow> [MkdirAll p]
                                       | File n c \<Rightarrow> [Create p, ReadFrom p (case c of Inr b \<Rightarrow> b | Inl e \<Rightarrow> [])])\<rparr>"
  from Cons.prems e v have f: "lookupR (world s) p = None" "hasParent (world s) p" "readable info"
    "freshFor (world ?s') (remoteVisits dstDir es dirs')"
    by simp_all
  have step: "copyFn (fsPlatform script local) path p info s = (OK, ?s')"
    using f(1-3) by (rule copyFn_fresh)
  have rest: "walkLoop (copyFn (fsPlatform script local)) dstDir es dirs' ?s' =
     (OK, ?s'\<lparr>world := world ?s' @ map (\<lambda>(p, info). (p, nodeOf info)) (remoteVisits dstDir es dirs'),
            calls := calls ?s' @ copyCalls (remoteVisits dstDir es dirs')\<rparr>)"
    using f(4) by (rule Cons.IH)
  show ?case
    using step rest e v by (cases info) simp_all
qed


lemma fresh_drop_file:
  "freshFor (fs @ (p, RFile b) # ys) vs \<Longrightarrow> freshFor (fs @ ys) vs"
proof (induction vs arbitrary: ys)
  case Nil
  then show ?case by simp
next
  case (Cons v vs)
  obtain q info where v: "v = (q, info)" by (cases v)
  from Cons.prems v have a: "lookupR (fs @ (p, RFile b) # ys) q = None"
    and h: "hasParent (fs @ (p, RFile b) # ys) q" and r: "readable info"
    and f: "freshFor (fs @ (p, RFile b) # (ys @ [(q, nodeOf info)])) vs"
    by simp_all
  have a': "lookupR (fs @ ys) q = None"
    using a by (auto simp add: lookupR_append split: option.splits if_splits)
  have h': "hasParent (fs @ ys) q"
    using h by (auto simp add: hasParent_def lookupR_append split: option.splits if_splits)
  have "freshFor (fs @ ys @ [(q, nodeOf info)]) vs"
    using f by (rule Cons.IH)
  then show ?case using v a' h' r by simp
qed

lemma fresh_keys: "freshFor fs vs \<Longrightarrow> fst ` set vs \<inter> fst ` set fs = {}"
proof (induction vs arbitrary: fs)
  case Nil
  then show ?case by simp
next
  case (Cons v vs)
  obtain q info where v: "v = (q, info)" by (cases v)
  from Cons.prems v have a: "lookupR fs q = None" and f: "freshFor (fs @ [(q, nodeOf info)]) vs"
    by simp_all
  have "fst ` set vs \<inter> fst ` set (fs @ [(q, nodeOf info)]) = {}"
    using f by (rule Cons.IH)
  then show ?case using v absent_facts(2) [OF a] by auto
qed

lemma wellFormed_append:
  "wellFormed fs \<Longrightarrow> hasParent fs p \<Longrightarrow> wellFormed (fs @ [(p, n)])"
  by (auto simp add: wellFormed_def list_all_iff hasParent_append)

lemma remove_made_file:
  assumes "p \<notin> fst ` set fs" "p \<notin> fst ` set ys"
  shows "snd (fsRemove p (fs @ (p, RFile b) # ys)) = fs @ ys"
proof -
  have "map_of fs p = None" using assms(1) by (simp add: map_of_eq_None_iff)
  then have "map_of (fs @ (p, RFile b) # ys) p = Some (RFile b)"
    by (simp add: map_add_def)
  then show ?thesis
    using assms by (simp add: fsRemove_def fsDelete_append fsDelete_absent fsDelete_Cons)
qed

lemma remove_made_directory:
  assumes "lookupR fs p = None" "wellFormed fs"
  shows "snd (fsRemoveDirectory p (fs @ [(p, RDir)])) = fs"
proof -
  note a = absent_facts [OF assms(1)]
  have m: "map_of (fs @ [(p, RDir)]) p = Some RDir"
    using a(1) by (simp add: map_add_def)
  have "\<And>q n. (q, n) \<in> set fs \<Longrightarrow> parentOf q \<noteq> Some p"
  proof
    fix q n
    assume "(q, n) \<in> set fs" "parentOf q = Some p"
    then have "lookupR fs p = Some RDir"
      using assms(2) by (auto simp add: wellFormed_def list_all_iff hasParent_def)
    then show False using assms(1) by simp
  qed
  then have "isEmptyDir (fs @ [(p, RDir)]) p"
    using parentOf_not_self by (auto simp add: isEmptyDir_def list_ex_iff)
  then show ?thesis
    using m a(2) by (simp add: fsRemoveDirectory_def fsDelete_append fsDelete_absent fsDelete_Cons)
qed

lemma filePaths_Cons:
  "filePaths ((p, info) # vs) = (if IsDir info then filePaths vs else p # filePaths vs)"
  "dirPaths ((p, info) # vs) = (if IsDir info then p # dirPaths vs else dirPaths vs)"
  by (simp_all add: filePaths_def dirPaths_def)

lemma delete_restores:
  "freshFor fs vs \<Longrightarrow> wellFormed fs \<Longrightarrow>
   foldl (\<lambda>w p. snd (fsRemoveDirectory p w))
     (foldl (\<lambda>w p. snd (fsRemove p w)) (fs @ map (\<lambda>(p, info). (p, nodeOf info)) vs) (filePaths vs))
     (rev (dirPaths vs)) = fs"
proof (induction vs arbitrary: fs)
  case Nil
  then show ?case by (simp add: filePaths_def dirPaths_def)
next
  case (Cons v vs)
  obtain p info where v: "v = (p, info)" by (cases v)
  let ?nodes = "map (\<lambda>(p, info). (p, nodeOf info)) vs"
  from Cons.prems v have a: "lookupR fs p = None" and h: "hasParent fs p" and r: "readable info"
    and f: "freshFor (fs @ [(p, nodeOf info)]) vs"
    by simp_all
  have k: "p \<notin> fst ` set fs" using a by (rule absent_facts(2))
  have "fst ` set vs \<inter> fst ` set (fs @ [(p, nodeOf info)]) = {}"
    using f by (rule fresh_keys)
  then have k': "p \<notin> fst ` set ?nodes" by force
  show ?case
  proof (cases info)
    case (Dir n es)
    have wf: "wellFormed (fs @ [(p, RDir)])"
      using Cons.prems(2) h by (rule wellFormed_append)
    have "foldl (\<lambda>w p. snd (fsRemoveDirectory p w))
            (foldl (\<lambda>w p. snd (fsRemove p w)) ((fs @ [(p, RDir)]) @ ?nodes) (filePaths vs))
            (rev (dirPaths vs)) = fs @ [(p, RDir)]"
      using f wf Dir by (intro Cons.IH) simp_all
    then show ?thesis
      using v Dir remove_made_directory [OF a Cons.prems(2)] by (simp add: filePaths_Cons)
  next
    case (File n c)
    then obtain b where c: "c = Inr b" using r by (cases c) auto
    have f': "freshFor fs vs"
      using f File c fresh_drop_file [of fs p b "[]" vs] by simp
    have "foldl (\<lambda>w p. snd (fsRemoveDirectory p w))
            (foldl (\<lambda>w p. snd (fsRemove p w)) (fs @ ?nodes) (filePaths vs))
            (rev (dirPaths vs)) = fs"
      using f' Cons.prems(2) by (rule Cons.IH)
    then show ?thesis
      using v File c remove_made_file [OF k k', of b] by (simp add: filePaths_Cons)
  qed
qed


lemma delete_walk:
  "walkLoop (deleteFn P) dstDir es dirs (ds, s) =
     (OK, (ds @ dirPaths (remoteVisits dstDir es dirs),
           foldl (\<lambda>st p. snd (sftpCall (Remove p) (sftpRemove P p) st)) s
             (filePaths (remoteVisits dstDir es dirs))))"
proof (induction es arbitrary: dirs ds s)
  case Nil
  then show ?case by (simp add: filePaths_def dirPaths_def)
next
  case (Cons e es)
  obtain path info where e: "e = (path, info)" by (cases e)
  obtain p dirs' where v: "visit dstDir dirs path (IsDir info) = (p, dirs')"
    by (cases "visit dstDir dirs path (IsDir info)")
  show ?case
    using e v Cons.IH by (simp add: filePaths_Cons)
qed

lemma removeDirectories_foldl:
  "removeDirectories P ds s =
     foldl (\<lambda>st d. snd (sftpCall (RemoveDirectory d) (sftpRemoveDirectory P d) st)) s ds"
  by (induction ds arbitrary: s) simp_all

lemma foldl_sftpCall:
  "world (foldl (\<lambda>st p. snd (sftpCall (c p) (f p) st)) s ps) =
     foldl (\<lambda>w p. snd (f p w)) (world s) ps"
  "calls (foldl (\<lambda>st p. snd (sftpCall (c p) (f p) st)) s ps) = calls s @ map c ps"
  by (induction ps arbitrary: s) (simp_all add: sftpCall_def split: prod.splits)

lemma ConnectSftpClient_fs:
  assumes "SshClient s"
  shows "fst (ConnectSftpClient (fsPlatform script local) s) = OK"
    and "world (snd (ConnectSftpClient (fsPlatform script local) s)) = world s"
    and "SftClient (snd (ConnectSftpClient (fsPlatform script local) s))"
  using assms by (simp_all add: ConnectSftpClient_def sftpCall_def sftp_ops)

text \<open>
  C3, as amended.  On a well-formed remote tree, when every remote path of the walk
  is absent and lies in a directory that exists at the moment the copy reaches it,
  and every local file can be read, the copy succeeds and makes the remote paths of
  the walk and no other; the delete that follows returns the remote tree to what it
  was before the copy.  The delete removes the files during the walk, in the order of
  the visits, and then the directories in the reverse order of their visits.
\<close>

theorem copy_then_delete_restores:
  assumes "SshClient s" and "local path = Some root"
    and "wellFormed (world s)"
    and "freshFor (world s) (remoteVisits workingDirectory (walkDir path root) [])"
  shows "fst (CopyFile (fsPlatform script local) service path workingDirectory s) = OK
    \<and> world (snd (CopyFile (fsPlatform script local) service path workingDirectory s)) =
        world s @ map (\<lambda>(p, info). (p, nodeOf info))
                    (remoteVisits workingDirectory (walkDir path root) [])
    \<and> fst (DeleteFile (fsPlatform script local) service path workingDirectory
          (snd (CopyFile (fsPlatform script local) service path workingDirectory s))) = OK
    \<and> world (snd (DeleteFile (fsPlatform script local) service path workingDirectory
          (snd (CopyFile (fsPlatform script local) service path workingDirectory s)))) = world s
    \<and> calls (snd (DeleteFile (fsPlatform script local) service path workingDirectory
          (snd (CopyFile (fsPlatform script local) service path workingDirectory s)))) =
        calls (snd (CopyFile (fsPlatform script local) service path workingDirectory s))
        @ map Remove (filePaths (remoteVisits workingDirectory (walkDir path root) []))
        @ map RemoveDirectory (rev (dirPaths (remoteVisits workingDirectory (walkDir path root) [])))"
proof -
  let ?P = "fsPlatform script local"
  let ?vs = "remoteVisits workingDirectory (walkDir path root) []"
  obtain s1 where c1: "ConnectSftpClient ?P s = (OK, s1)" and w1: "world s1 = world s"
    and f1: "SftClient s1"
    using ConnectSftpClient_fs [OF assms(1), of script local]
    by (cases "ConnectSftpClient ?P s") auto
  let ?s2 = "s1\<lparr>world := world s1 @ map (\<lambda>(p, info). (p, nodeOf info)) ?vs,
                 calls := calls s1 @ copyCalls ?vs\<rparr>"
  have copy: "CopyFile ?P service path workingDirectory s = (OK, ?s2)"
    using c1 assms(2,4) w1 copy_walk [of s1 workingDirectory "walkDir path root" "[]" script local]
    by (simp add: CopyFile_def WalkDir_def sftp_ops)
  have c2: "ConnectSftpClient ?P ?s2 = (OK, ?s2)"
    using f1 by (simp add: ConnectSftpClient_def)
  let ?s3 = "foldl (\<lambda>st p. snd (sftpCall (Remove p) (sftpRemove ?P p) st)) ?s2 (filePaths ?vs)"
  let ?s4 = "foldl (\<lambda>st d. snd (sftpCall (RemoveDirectory d) (sftpRemoveDirectory ?P d) st)) ?s3
               (rev (dirPaths ?vs))"
  have del: "DeleteFile ?P service path workingDirectory ?s2 = (OK, ?s4)"
    using c2 assms(2) delete_walk [of ?P workingDirectory "walkDir path root" "[]" "[]" ?s2]
    by (simp add: DeleteFile_def WalkDir_def sftp_ops removeDirectories_foldl)
  have w4: "world ?s4 = world s"
    using delete_restores [OF assms(4,3)] w1
    by (simp add: foldl_sftpCall sftp_ops)
  have k4: "calls ?s4 = calls ?s2 @ map Remove (filePaths ?vs) @ map RemoveDirectory (rev (dirPaths ?vs))"
    by (simp add: foldl_sftpCall)
  show ?thesis
    unfolding copy snd_conv fst_conv del using w1 w4 k4 by simp
qed


theorem copy_then_delete_restores_witness:
  "wellFormed homeTree
   \<and> freshFor homeTree (remoteVisits ''/home/u'' (walkDir ''a'' nestedTree) [])
   \<and> world (snd (CopyFile (fsPlatform shellScript localTree) demoService ''a'' ''/home/u''
                   (connected homeTree))) =
       homeTree @ [(''/home/u/a'', RDir), (''/home/u/a/b'', RDir), (''/home/u/a/b/c'', RDir),
                   (''/home/u/a/b/z'', RFile ''data'')]
   \<and> world (snd (DeleteFile (fsPlatform shellScript localTree) demoService ''a'' ''/home/u''
        (snd (CopyFile (fsPlatform shellScript localTree) demoService ''a'' ''/home/u''
               (connected homeTree))))) = homeTree
   \<and> calls (snd (DeleteFile (fsPlatform shellScript localTree) demoService ''a'' ''/home/u''
        (snd (CopyFile (fsPlatform shellScript localTree) demoService ''a'' ''/home/u''
               (connected homeTree))))) =
       calls (snd (CopyFile (fsPlatform shellScript localTree) demoService ''a'' ''/home/u''
               (connected homeTree)))
       @ [Remove ''/home/u/a/b/z'', RemoveDirectory ''/home/u/a/b/c'',
          RemoveDirectory ''/home/u/a/b'', RemoveDirectory ''/home/u/a'']"
proof -
  have c: "SshClient (connected homeTree)" "world (connected homeTree) = homeTree"
    by (simp_all add: connected_def)
  have l: "localTree ''a'' = Some nestedTree"
    by (simp add: localTree_def)
  have w: "wellFormed homeTree"
    by code_simp
  have v: "remoteVisits ''/home/u'' (walkDir ''a'' nestedTree) [] =
             [(''/home/u/a'', nestedTree), (''/home/u/a/b'', Dir ''b'' [Dir ''c'' []]),
              (''/home/u/a/b/c'', Dir ''c'' []), (''/home/u/a/b/z'', File ''z'' (Inr ''data''))]"
    by code_simp
  have f: "freshFor homeTree (remoteVisits ''/home/u'' (walkDir ''a'' nestedTree) [])"
    by code_simp
  note t = copy_then_delete_restores [of "connected homeTree" localTree "''a''" nestedTree
      "''/home/u''" shellScript demoService, OF c(1) l, unfolded c(2), OF w f, unfolded v]
  show ?thesis
    using t w f by (simp add: filePaths_def dirPaths_def nestedTree_def)
qed

text \<open>
  The claim as it stands fails when a remote path of the walk exists before the copy:
  the copy overwrites the remote file \<open>/home/u/f\<close>, the delete removes it, and the
  tree is not the one before the copy.
\<close>

theorem copy_then_delete_loses_file:
  "lookupR homeTree ''/home/u/f'' = Some (RFile ''old'')
   \<and> fst (CopyFile (fsPlatform shellScript fileLocal) demoService ''f'' ''/home/u'' (connected homeTree)) = OK
   \<and> world (snd (DeleteFile (fsPlatform shellScript fileLocal) demoService ''f'' ''/home/u''
        (snd (CopyFile (fsPlatform shellScript fileLocal) demoService ''f'' ''/home/u''
               (connected homeTree))))) = [(''/home'', RDir), (''/home/u'', RDir)]
   \<and> world (snd (DeleteFile (fsPlatform shellScript fileLocal) demoService ''f'' ''/home/u''
        (snd (CopyFile (fsPlatform shellScript fileLocal) demoService ''f'' ''/home/u''
               (connected homeTree))))) \<noteq> homeTree"
  by code_simp


subsection \<open>The working directory and the home directory\<close>

text \<open>
  C5.  The service \<open>dotService\<close> mirrors the local directory \<open>.\<close> into its working
  directory, which is the home directory \<open>/home/u\<close> recorded when the service was made.
  \<open>Service.DeleteFiles\<close> keeps its last step, the removal of the working directory,
  from the home directory, and with no file to mirror an uninstall leaves the tree as
  it is.  But \<open>Service.DeleteFile\<close> removes every directory its walk has visited, and
  the root of the walk of \<open>.\<close> is the working directory itself: after the file \<open>f\<close> the
  uninstall asks for the removal of \<open>/home/u\<close>, which is empty by then, and the home
  directory is gone, with the flag or without it.
\<close>

theorem Uninstall_removes_home_directory:
  "WorkingDirectory (Conf dotService) = remoteHomeDir dotService
   \<and> remoteHomeDir dotService = ''/home/u''
   \<and> lookupR homeTree ''/home/u'' = Some RDir
   \<and> world (snd (Uninstall (fsPlatform shellScript dotLocal) demoService True
                   (connected homeTree))) = homeTree
   \<and> lookupR (world (snd (Uninstall (fsPlatform shellScript dotLocal) dotService True
                          (connected homeTree)))) ''/home/u'' = None
   \<and> lookupR (world (snd (Uninstall (fsPlatform shellScript dotLocal) dotService False
                          (connected homeTree)))) ''/home/u'' = None
   \<and> world (snd (Uninstall (fsPlatform shellScript dotLocal) dotService True
                   (connected homeTree))) = [(''/home'', RDir)]
   \<and> calls (snd (Uninstall (fsPlatform shellScript dotLocal) dotService True (connected homeTree))) =
       [Exec ''systemctl --user stop srv'', Exec ''systemctl --user disable srv'',
        Exec ''rm /home/u/.config/systemd/user/srv.service'', Exec ''systemctl --user daemon-reload'',
        Exec ''systemctl --user reset-failed'', Exec ''rm /home/u/go/bin/srv'',
        NewSftp, Remove ''/home/u/f'', RemoveDirectory ''/home/u'']"
  by code_simp

end
